theory Spec2Isabelle
  imports Complex_Main
begin

section \<open>Floating-point values\<close>

text \<open>
  LorenzODE.py computes with Python floats and, after \<^verbatim>\<open>from pylab import *\<close>, with
  numpy.float64 scalars (the results of numpy's \<^verbatim>\<open>sqrt\<close> and \<^verbatim>\<open>log\<close>).
  A float is modelled as an exact real or one of the three IEEE special values.
  Arithmetic on finite values is exact real arithmetic (no rounding, no overflow, no
  underflow, one zero taken as \<^verbatim>\<open>+0.0\<close>); the special values follow IEEE 754, which is what numpy
  computes without raising: \<^verbatim>\<open>0.0/0.0\<close> is \<^verbatim>\<open>nan\<close>, \<^verbatim>\<open>1.0/0.0\<close> is \<^verbatim>\<open>inf\<close>,
  \<^verbatim>\<open>log(0.0)\<close> is \<^verbatim>\<open>-inf\<close>, and every comparison with \<^verbatim>\<open>nan\<close> is false.
\<close>

datatype fl = Fin real | PInf | NInf | NaN

definition inf_of_sign :: "real \<Rightarrow> fl" where
  "inf_of_sign s = (if s = 0 then NaN else if 0 < s then PInf else NInf)"

instantiation fl :: "{zero,one,plus,uminus,minus,times,divide,abs,ord}"
begin

definition zero_fl :: fl where
  "zero_fl = Fin 0"

definition one_fl :: fl where
  "one_fl = Fin 1"

fun plus_fl :: "fl \<Rightarrow> fl \<Rightarrow> fl" where
  "plus_fl (Fin a) (Fin b) = Fin (a + b)"
| "plus_fl NaN _ = NaN"
| "plus_fl _ NaN = NaN"
| "plus_fl PInf NInf = NaN"
| "plus_fl NInf PInf = NaN"
| "plus_fl PInf _ = PInf"
| "plus_fl _ PInf = PInf"
| "plus_fl NInf _ = NInf"
| "plus_fl _ NInf = NInf"

fun uminus_fl :: "fl \<Rightarrow> fl" where
  "uminus_fl (Fin a) = Fin (- a)"
| "uminus_fl PInf = NInf"
| "uminus_fl NInf = PInf"
| "uminus_fl NaN = NaN"

definition minus_fl :: "fl \<Rightarrow> fl \<Rightarrow> fl" where
  "minus_fl a b = a + (- b)"

fun times_fl :: "fl \<Rightarrow> fl \<Rightarrow> fl" where
  "times_fl (Fin a) (Fin b) = Fin (a * b)"
| "times_fl NaN _ = NaN"
| "times_fl _ NaN = NaN"
| "times_fl (Fin a) PInf = inf_of_sign a"
| "times_fl (Fin a) NInf = inf_of_sign (- a)"
| "times_fl PInf (Fin b) = inf_of_sign b"
| "times_fl NInf (Fin b) = inf_of_sign (- b)"
| "times_fl PInf PInf = PInf"
| "times_fl NInf NInf = PInf"
| "times_fl PInf NInf = NInf"
| "times_fl NInf PInf = NInf"

text \<open>numpy's true division: a zero divisor gives an infinity or \<^verbatim>\<open>nan\<close>, never an exception.\<close>

fun divide_fl :: "fl \<Rightarrow> fl \<Rightarrow> fl" where
  "divide_fl (Fin a) (Fin b) = (if b = 0 then inf_of_sign a else Fin (a / b))"
| "divide_fl NaN _ = NaN"
| "divide_fl _ NaN = NaN"
| "divide_fl (Fin a) PInf = Fin 0"
| "divide_fl (Fin a) NInf = Fin 0"
| "divide_fl PInf (Fin b) = (if b < 0 then NInf else PInf)"
| "divide_fl NInf (Fin b) = (if b < 0 then PInf else NInf)"
| "divide_fl PInf PInf = NaN"
| "divide_fl PInf NInf = NaN"
| "divide_fl NInf PInf = NaN"
| "divide_fl NInf NInf = NaN"

fun abs_fl :: "fl \<Rightarrow> fl" where
  "abs_fl (Fin a) = Fin \<bar>a\<bar>"
| "abs_fl PInf = PInf"
| "abs_fl NInf = PInf"
| "abs_fl NaN = NaN"

fun less_fl :: "fl \<Rightarrow> fl \<Rightarrow> bool" where
  "less_fl (Fin a) (Fin b) = (a < b)"
| "less_fl NaN _ = False"
| "less_fl _ NaN = False"
| "less_fl _ NInf = False"
| "less_fl PInf _ = False"
| "less_fl NInf _ = True"
| "less_fl _ PInf = True"

fun less_eq_fl :: "fl \<Rightarrow> fl \<Rightarrow> bool" where
  "less_eq_fl (Fin a) (Fin b) = (a \<le> b)"
| "less_eq_fl NaN _ = False"
| "less_eq_fl _ NaN = False"
| "less_eq_fl NInf _ = True"
| "less_eq_fl _ PInf = True"
| "less_eq_fl _ NInf = False"
| "less_eq_fl PInf _ = False"

instance ..

end

instantiation fl :: inverse
begin

definition inverse_fl :: "fl \<Rightarrow> fl" where
  "inverse_fl a = divide (Fin 1) a"

instance ..

end

text \<open>
  Addition with the special values is still associative and commutative with unit zero,
  so a running total is a sum in the usual sense.
\<close>

instance fl :: comm_monoid_add
proof
  fix u v w :: fl
  show "u + v = v + u"
    by (cases u; cases v; simp)
  show "u + v + w = u + (v + w)"
    by (cases u; cases v; cases w; simp)
  show "0 + u = u"
    by (cases u; simp add: zero_fl_def)
qed

instance fl :: numeral ..

text \<open>numpy's \<^verbatim>\<open>sqrt\<close> and \<^verbatim>\<open>log\<close> (the natural logarithm), as pylab exports them.\<close>

fun sqrt_np :: "fl \<Rightarrow> fl" where
  "sqrt_np (Fin a) = (if a < 0 then NaN else Fin (sqrt a))"
| "sqrt_np PInf = PInf"
| "sqrt_np NInf = NaN"
| "sqrt_np NaN = NaN"

fun log_np :: "fl \<Rightarrow> fl" where
  "log_np (Fin a) = (if a < 0 then NaN else if a = 0 then NInf else Fin (ln a))"
| "log_np PInf = PInf"
| "log_np NInf = NaN"
| "log_np NaN = NaN"

text \<open>Whether a float is a number other than \<^verbatim>\<open>nan\<close> and the infinities.\<close>

fun isfinite :: "fl \<Rightarrow> bool" where
  "isfinite (Fin a) = True"
| "isfinite PInf = False"
| "isfinite NInf = False"
| "isfinite NaN = False"

text \<open>
  Python's \<^verbatim>\<open>/\<close> depends on the operands: between built-in numbers a zero divisor raises
  \<^verbatim>\<open>ZeroDivisionError\<close>; as soon as one operand is a numpy.float64 the division is
  numpy's and returns an infinity or \<^verbatim>\<open>nan\<close> (with a RuntimeWarning on stderr only).
\<close>

datatype pyerror = ZeroDivisionError

datatype fkind = Builtin | Numpy

fun truediv :: "fkind \<Rightarrow> fl \<Rightarrow> fl \<Rightarrow> pyerror + fl" where
  "truediv Builtin a b = (if b = Fin 0 then Inl ZeroDivisionError else Inr (a / b))"
| "truediv Numpy a b = Inr (a / b)"

section \<open>The vector field and its linearization\<close>

text \<open>
  The arithmetic of these functions and of the two integrators never divides by a
  variable, so they are written once for any number type and used both on exact reals
  and on \<^typ>\<open>fl\<close>.
\<close>

definition LorenzXDot :: "'a::{plus,minus,times} \<Rightarrow> 'a \<Rightarrow> 'a \<Rightarrow> 'a \<Rightarrow> 'a \<Rightarrow> 'a \<Rightarrow> 'a \<Rightarrow> 'a \<Rightarrow> 'a \<Rightarrow> 'a" where
  "LorenzXDot alpha gamma mu beta delta lambd x y z = alpha * y * z - gamma * x"

definition LorenzYDot :: "'a::{plus,minus,times} \<Rightarrow> 'a \<Rightarrow> 'a \<Rightarrow> 'a \<Rightarrow> 'a \<Rightarrow> 'a \<Rightarrow> 'a \<Rightarrow> 'a \<Rightarrow> 'a \<Rightarrow> 'a" where
  "LorenzYDot alpha gamma mu beta delta lambd x y z = mu * (y + z) - beta * x * z"

definition LorenzZDot :: "'a::{plus,minus,times} \<Rightarrow> 'a \<Rightarrow> 'a \<Rightarrow> 'a \<Rightarrow> 'a \<Rightarrow> 'a \<Rightarrow> 'a \<Rightarrow> 'a \<Rightarrow> 'a \<Rightarrow> 'a" where
  "LorenzZDot alpha gamma mu beta delta lambd x y z = delta * y - lambd * z"

definition LorenzDXDot :: "'a::{plus,minus,times} \<Rightarrow> 'a \<Rightarrow> 'a \<Rightarrow> 'a \<Rightarrow> 'a \<Rightarrow> 'a \<Rightarrow> 'a \<Rightarrow> 'a \<Rightarrow> 'a \<Rightarrow> 'a \<Rightarrow> 'a \<Rightarrow> 'a \<Rightarrow> 'a" where
  "LorenzDXDot alpha gamma mu beta delta lambd x y z dx dy dz =
     alpha * (y * dz + z * dy) - gamma * dx"

definition LorenzDYDot :: "'a::{plus,minus,times} \<Rightarrow> 'a \<Rightarrow> 'a \<Rightarrow> 'a \<Rightarrow> 'a \<Rightarrow> 'a \<Rightarrow> 'a \<Rightarrow> 'a \<Rightarrow> 'a \<Rightarrow> 'a \<Rightarrow> 'a \<Rightarrow> 'a \<Rightarrow> 'a" where
  "LorenzDYDot alpha gamma mu beta delta lambd x y z dx dy dz =
     mu * (dy + dz) - beta * (x * dz + z * dx)"

definition LorenzDZDot :: "'a::{plus,minus,times} \<Rightarrow> 'a \<Rightarrow> 'a \<Rightarrow> 'a \<Rightarrow> 'a \<Rightarrow> 'a \<Rightarrow> 'a \<Rightarrow> 'a \<Rightarrow> 'a \<Rightarrow> 'a \<Rightarrow> 'a \<Rightarrow> 'a \<Rightarrow> 'a" where
  "LorenzDZDot alpha gamma mu beta delta lambd x y z dx dy dz = delta * dy - lambd * dz"

definition LorenzODETrJac :: "'a::{plus,minus,times} \<Rightarrow> 'a \<Rightarrow> 'a \<Rightarrow> 'a \<Rightarrow> 'a \<Rightarrow> 'a \<Rightarrow> 'a \<Rightarrow> 'a \<Rightarrow> 'a \<Rightarrow> 'a" where
  "LorenzODETrJac alpha gamma mu beta delta lambd x y z = mu - gamma - lambd"

section \<open>The fractal dimension\<close>

text \<open>
  The first argument says which division the last branch performs: \<^const>\<open>Numpy\<close> when at
  least one of the three exponents is a numpy.float64 (as at the module's own call, after
  the accumulation loop has added \<^verbatim>\<open>log(d)\<close> to each), \<^const>\<open>Builtin\<close> when all three are
  built-in numbers.
\<close>

definition FractalDimension3DODE :: "fkind \<Rightarrow> fl \<Rightarrow> fl \<Rightarrow> fl \<Rightarrow> pyerror + fl" where
  "FractalDimension3DODE k LCE1 LCE2 LCE3 =
     (let Err = Fin 0.01 in
      if LCE1 < - Err then Inr (Fin 0)
      else if \<bar>LCE1\<bar> \<le> Err then
        (if LCE2 < - Err then Inr (Fin 1) else Inr (Fin 2))
      else
        (case truediv k (LCE1 + LCE2) \<bar>LCE3\<bar> of
           Inl err \<Rightarrow> Inl err
         | Inr q \<Rightarrow> Inr (Fin 2 + q)))"

section \<open>The integrators\<close>

definition RKThreeD ::
  "'a::{numeral,minus,times,inverse} \<Rightarrow> 'a \<Rightarrow> 'a \<Rightarrow> 'a \<Rightarrow> 'a \<Rightarrow> 'a \<Rightarrow> 'a \<Rightarrow> 'a \<Rightarrow> 'a
   \<Rightarrow> ('a \<Rightarrow> 'a \<Rightarrow> 'a \<Rightarrow> 'a \<Rightarrow> 'a \<Rightarrow> 'a \<Rightarrow> 'a \<Rightarrow> 'a \<Rightarrow> 'a \<Rightarrow> 'a)
   \<Rightarrow> ('a \<Rightarrow> 'a \<Rightarrow> 'a \<Rightarrow> 'a \<Rightarrow> 'a \<Rightarrow> 'a \<Rightarrow> 'a \<Rightarrow> 'a \<Rightarrow> 'a \<Rightarrow> 'a)
   \<Rightarrow> ('a \<Rightarrow> 'a \<Rightarrow> 'a \<Rightarrow> 'a \<Rightarrow> 'a \<Rightarrow> 'a \<Rightarrow> 'a \<Rightarrow> 'a \<Rightarrow> 'a \<Rightarrow> 'a)
   \<Rightarrow> 'a \<Rightarrow> 'a \<times> 'a \<times> 'a" where
  "RKThreeD a b c d e i x y z f g h dt =
     (let k1x = dt * f a b c d e i x y z;
          k1y = dt * g a b c d e i x y z;
          k1z = dt * h a b c d e i x y z;
          k2x = dt * f a b c d e i (x + k1x / 2) (y + k1y / 2) (z + k1z / 2);
          k2y = dt * g a b c d e i (x + k1x / 2) (y + k1y / 2) (z + k1z / 2);
          k2z = dt * h a b c d e i (x + k1x / 2) (y + k1y / 2) (z + k1z / 2);
          k3x = dt * f a b c d e i (x + k2x / 2) (y + k2y / 2) (z + k2z / 2);
          k3y = dt * g a b c d e i (x + k2x / 2) (y + k2y / 2) (z + k2z / 2);
          k3z = dt * h a b c d e i (x + k2x / 2) (y + k2y / 2) (z + k2z / 2);
          k4x = dt * f a b c d e i (x + k3x) (y + k3y) (z + k3z);
          k4y = dt * g a b c d e i (x + k3x) (y + k3y) (z + k3z);
          k4z = dt * h a b c d e i (x + k3x) (y + k3y) (z + k3z)
      in (x + (k1x + 2 * k2x + 2 * k3x + k4x) / 6,
          y + (k1y + 2 * k2y + 2 * k3y + k4y) / 6,
          z + (k1z + 2 * k2z + 2 * k3z + k4z) / 6))"

definition TangentFlowRKThreeD ::
  "'a::{numeral,minus,times,inverse} \<Rightarrow> 'a \<Rightarrow> 'a \<Rightarrow> 'a \<Rightarrow> 'a \<Rightarrow> 'a \<Rightarrow> 'a \<Rightarrow> 'a \<Rightarrow> 'a
   \<Rightarrow> ('a \<Rightarrow> 'a \<Rightarrow> 'a \<Rightarrow> 'a \<Rightarrow> 'a \<Rightarrow> 'a \<Rightarrow> 'a \<Rightarrow> 'a \<Rightarrow> 'a \<Rightarrow> 'a \<Rightarrow> 'a \<Rightarrow> 'a \<Rightarrow> 'a)
   \<Rightarrow> ('a \<Rightarrow> 'a \<Rightarrow> 'a \<Rightarrow> 'a \<Rightarrow> 'a \<Rightarrow> 'a \<Rightarrow> 'a \<Rightarrow> 'a \<Rightarrow> 'a \<Rightarrow> 'a \<Rightarrow> 'a \<Rightarrow> 'a \<Rightarrow> 'a)
   \<Rightarrow> ('a \<Rightarrow> 'a \<Rightarrow> 'a \<Rightarrow> 'a \<Rightarrow> 'a \<Rightarrow> 'a \<Rightarrow> 'a \<Rightarrow> 'a \<Rightarrow> 'a \<Rightarrow> 'a \<Rightarrow> 'a \<Rightarrow> 'a \<Rightarrow> 'a)
   \<Rightarrow> 'a \<Rightarrow> 'a \<Rightarrow> 'a \<Rightarrow> 'a \<Rightarrow> 'a \<times> 'a \<times> 'a" where
  "TangentFlowRKThreeD a b c d e i x y z df dg dh dx dy dz dt =
     (let k1x = dt * df a b c d e i x y z dx dy dz;
          k1y = dt * dg a b c d e i x y z dx dy dz;
          k1z = dt * dh a b c d e i x y z dx dy dz;
          k2x = dt * df a b c d e i x y z (dx + k1x / 2) (dy + k1y / 2) (dz + k1z / 2);
          k2y = dt * dg a b c d e i x y z (dx + k1x / 2) (dy + k1y / 2) (dz + k1z / 2);
          k2z = dt * dh a b c d e i x y z (dx + k1x / 2) (dy + k1y / 2) (dz + k1z / 2);
          k3x = dt * df a b c d e i x y z (dx + k2x / 2) (dy + k2y / 2) (dz + k2z / 2);
          k3y = dt * dg a b c d e i x y z (dx + k2x / 2) (dy + k2y / 2) (dz + k2z / 2);
          k3z = dt * dh a b c d e i x y z (dx + k2x / 2) (dy + k2y / 2) (dz + k2z / 2);
          k4x = dt * df a b c d e i x y z (dx + k3x) (dy + k3y) (dz + k3z);
          k4y = dt * dg a b c d e i x y z (dx + k3x) (dy + k3y) (dz + k3z);
          k4z = dt * dh a b c d e i x y z (dx + k3x) (dy + k3y) (dz + k3z)
      in (dx + (k1x + 2 * k2x + 2 * k3x + k4x) / 6,
          dy + (k1y + 2 * k2y + 2 * k3y + k4y) / 6,
          dz + (k1z + 2 * k2z + 2 * k3z + k4z) / 6))"

text \<open>
  The integrator contract in the specification's words: one classical fourth-order
  Runge-Kutta step of a vector field \<open>F\<close> on triples, with the four stage derivatives at
  the state, the state plus half of the first, plus half of the second, plus the third,
  each scaled by the step size.
\<close>

definition add3 :: "'a::plus \<times> 'a \<times> 'a \<Rightarrow> 'a \<times> 'a \<times> 'a \<Rightarrow> 'a \<times> 'a \<times> 'a" where
  "add3 u v = (case u of (u1, u2, u3) \<Rightarrow> case v of (v1, v2, v3) \<Rightarrow> (u1 + v1, u2 + v2, u3 + v3))"

definition scale3 :: "'a::times \<Rightarrow> 'a \<times> 'a \<times> 'a \<Rightarrow> 'a \<times> 'a \<times> 'a" where
  "scale3 k v = (case v of (v1, v2, v3) \<Rightarrow> (k * v1, k * v2, k * v3))"

definition div3 :: "'a::inverse \<times> 'a \<times> 'a \<Rightarrow> 'a \<Rightarrow> 'a \<times> 'a \<times> 'a" where
  "div3 v k = (case v of (v1, v2, v3) \<Rightarrow> (v1 / k, v2 / k, v3 / k))"

definition rk4_classical ::
  "('a::{numeral,minus,times,inverse} \<times> 'a \<times> 'a \<Rightarrow> 'a \<times> 'a \<times> 'a) \<Rightarrow> 'a \<times> 'a \<times> 'a \<Rightarrow> 'a \<Rightarrow> 'a \<times> 'a \<times> 'a" where
  "rk4_classical F s dt =
     (let k1 = scale3 dt (F s);
          k2 = scale3 dt (F (add3 s (div3 k1 2)));
          k3 = scale3 dt (F (add3 s (div3 k2 2)));
          k4 = scale3 dt (F (add3 s k3))
      in add3 s (div3 (add3 (add3 (add3 k1 (scale3 2 k2)) (scale3 2 k3)) k4) 6))"

section \<open>The script\<close>

text \<open>
  The module-level constants of the script (the step size, the six control parameters and
  the loop counts) are the fields of a record, so that the script is a function of them.
  \<open>nTransients\<close> and \<open>nIterates\<close> are assigned twice in the source: the values in force while
  the orbit is generated are \<open>nTransients_orbit\<close> and \<open>nIterates_orbit\<close>, the values in force
  during the exponent estimation keep the source's names.
\<close>

record config =
  dt :: fl
  alpha :: fl
  gamma :: fl
  mu :: fl
  beta :: fl
  delta :: fl
  lambd :: fl
  nTransients_orbit :: nat
  nIterates_orbit :: nat
  nTransients :: nat
  nIterates :: nat
  nItsPerPB :: nat

definition source_config :: config where
  "source_config =
     \<lparr>dt = Fin 0.01, alpha = Fin 5, gamma = Fin 1, mu = Fin 2.2, beta = Fin 8, delta = Fin 1,
      lambd = Fin 6.39, nTransients_orbit = 100, nIterates_orbit = 10000,
      nTransients = 100, nIterates = 1000, nItsPerPB = 10\<rparr>"

subsection \<open>Generating the orbit\<close>

definition orbit_transient :: "config \<Rightarrow> fl \<times> fl \<times> fl" where
  "orbit_transient cfg =
     foldl (\<lambda>(xState, yState, zState) n.
              RKThreeD (alpha cfg) (gamma cfg) (mu cfg) (beta cfg) (delta cfg) (lambd cfg)
                xState yState zState LorenzXDot LorenzYDot LorenzZDot (dt cfg))
       (Fin 1, Fin 1, Fin 1) [0..<nTransients_orbit cfg]"

definition orbit :: "config \<Rightarrow> fl \<times> fl \<times> fl \<Rightarrow> fl list \<times> fl list \<times> fl list" where
  "orbit cfg start =
     (case start of (xState, yState, zState) \<Rightarrow>
        foldl (\<lambda>(x, y, z) n.
                 (case RKThreeD (alpha cfg) (gamma cfg) (mu cfg) (beta cfg) (delta cfg) (lambd cfg)
                         (x ! n) (y ! n) (z ! n) LorenzXDot LorenzYDot LorenzZDot (dt cfg)
                  of (xt, yt, zt) \<Rightarrow> (x @ [xt], y @ [yt], z @ [zt])))
          ([xState], [yState], [zState]) [0..<nIterates_orbit cfg])"

subsection \<open>Estimating the exponents\<close>

text \<open>
  The variables the estimation part of the script reads and writes. \<open>d\<close> and the three
  accumulators do not exist yet when the tangent vectors are initialised; they are
  assigned before they are first read, and hold \<open>0.0\<close> until then.
\<close>

record estate =
  xState :: fl
  yState :: fl
  zState :: fl
  e1x :: fl
  e1y :: fl
  e1z :: fl
  e2x :: fl
  e2y :: fl
  e2z :: fl
  e3x :: fl
  e3y :: fl
  e3z :: fl
  d :: fl
  LCE1 :: fl
  LCE2 :: fl
  LCE3 :: fl

definition lce_init :: estate where
  "lce_init =
     \<lparr>xState = Fin 1, yState = Fin 1, zState = Fin 1,
      e1x = Fin 1, e1y = Fin 0, e1z = Fin 0,
      e2x = Fin 0, e2y = Fin 1, e2z = Fin 0,
      e3x = Fin 0, e3y = Fin 0, e3z = Fin 1,
      d = Fin 0, LCE1 = Fin 0, LCE2 = Fin 0, LCE3 = Fin 0\<rparr>"

text \<open>The body of the inner loop \<^verbatim>\<open>for i in range(nItsPerPB)\<close>, the same in both outer loops.\<close>

definition inner_step :: "config \<Rightarrow> estate \<Rightarrow> estate" where
  "inner_step cfg s0 =
     (case RKThreeD (alpha cfg) (gamma cfg) (mu cfg) (beta cfg) (delta cfg) (lambd cfg)
             (xState s0) (yState s0) (zState s0) LorenzXDot LorenzYDot LorenzZDot (dt cfg)
      of (x', y', z') \<Rightarrow>
     let s1 = s0\<lparr>xState := x', yState := y', zState := z'\<rparr> in
     (case TangentFlowRKThreeD (alpha cfg) (gamma cfg) (mu cfg) (beta cfg) (delta cfg) (lambd cfg)
             (xState s1) (yState s1) (zState s1) LorenzDXDot LorenzDYDot LorenzDZDot
             (e1x s1) (e1y s1) (e1z s1) (dt cfg)
      of (u1, u2, u3) \<Rightarrow>
     let s2 = s1\<lparr>e1x := u1, e1y := u2, e1z := u3\<rparr> in
     (case TangentFlowRKThreeD (alpha cfg) (gamma cfg) (mu cfg) (beta cfg) (delta cfg) (lambd cfg)
             (xState s2) (yState s2) (zState s2) LorenzDXDot LorenzDYDot LorenzDZDot
             (e2x s2) (e2y s2) (e2z s2) (dt cfg)
      of (v1, v2, v3) \<Rightarrow>
     let s3 = s2\<lparr>e2x := v1, e2y := v2, e2z := v3\<rparr> in
     (case TangentFlowRKThreeD (alpha cfg) (gamma cfg) (mu cfg) (beta cfg) (delta cfg) (lambd cfg)
             (xState s3) (yState s3) (zState s3) LorenzDXDot LorenzDYDot LorenzDZDot
             (e3x s3) (e3y s3) (e3z s3) (dt cfg)
      of (w1, w2, w3) \<Rightarrow>
     s3\<lparr>e3x := w1, e3y := w2, e3z := w3\<rparr>))))"

definition interval :: "config \<Rightarrow> estate \<Rightarrow> estate" where
  "interval cfg s = foldl (\<lambda>s i. inner_step cfg s) s [0..<nItsPerPB cfg]"

text \<open>
  The pull-back block, stage by stage as the source's comments divide it. Every division
  is by \<open>d\<close>, a result of numpy's \<^verbatim>\<open>sqrt\<close>, so it is numpy's division and cannot raise.
\<close>

definition normalize_e1 :: "estate \<Rightarrow> estate" where
  "normalize_e1 s0 =
     (let s1 = s0\<lparr>d := sqrt_np (e1x s0 * e1x s0 + e1y s0 * e1y s0 + e1z s0 * e1z s0)\<rparr>
      in s1\<lparr>e1x := e1x s1 / d s1, e1y := e1y s1 / d s1, e1z := e1z s1 / d s1\<rparr>)"

definition accumulate_LCE1 :: "estate \<Rightarrow> estate" where
  "accumulate_LCE1 s = s\<lparr>LCE1 := LCE1 s + log_np (d s)\<rparr>"

definition pullback_e2 :: "estate \<Rightarrow> estate" where
  "pullback_e2 s =
     (let dote1e2 = e1x s * e2x s + e1y s * e2y s + e1z s * e2z s
      in s\<lparr>e2x := e2x s - dote1e2 * e1x s,
           e2y := e2y s - dote1e2 * e1y s,
           e2z := e2z s - dote1e2 * e1z s\<rparr>)"

definition normalize_e2 :: "estate \<Rightarrow> estate" where
  "normalize_e2 s0 =
     (let s1 = s0\<lparr>d := sqrt_np (e2x s0 * e2x s0 + e2y s0 * e2y s0 + e2z s0 * e2z s0)\<rparr>
      in s1\<lparr>e2x := e2x s1 / d s1, e2y := e2y s1 / d s1, e2z := e2z s1 / d s1\<rparr>)"

definition accumulate_LCE2 :: "estate \<Rightarrow> estate" where
  "accumulate_LCE2 s = s\<lparr>LCE2 := LCE2 s + log_np (d s)\<rparr>"

definition pullback_e3 :: "estate \<Rightarrow> estate" where
  "pullback_e3 s =
     (let dote1e3 = e1x s * e3x s + e1y s * e3y s + e1z s * e3z s;
          dote2e3 = e2x s * e3x s + e2y s * e3y s + e2z s * e3z s
      in s\<lparr>e3x := e3x s - (dote1e3 * e1x s + dote2e3 * e2x s),
           e3y := e3y s - (dote1e3 * e1y s + dote2e3 * e2y s),
           e3z := e3z s - (dote1e3 * e1z s + dote2e3 * e2z s)\<rparr>)"

definition normalize_e3 :: "estate \<Rightarrow> estate" where
  "normalize_e3 s0 =
     (let s1 = s0\<lparr>d := sqrt_np (e3x s0 * e3x s0 + e3y s0 * e3y s0 + e3z s0 * e3z s0)\<rparr>
      in s1\<lparr>e3x := e3x s1 / d s1, e3y := e3y s1 / d s1, e3z := e3z s1 / d s1\<rparr>)"

definition accumulate_LCE3 :: "estate \<Rightarrow> estate" where
  "accumulate_LCE3 s = s\<lparr>LCE3 := LCE3 s + log_np (d s)\<rparr>"

text \<open>The block of the alignment loop, which discards the factors.\<close>

definition align_pullback :: "estate \<Rightarrow> estate" where
  "align_pullback s =
     normalize_e3 (pullback_e3 (normalize_e2 (pullback_e2 (normalize_e1 s))))"

text \<open>The block of the accumulation loop.\<close>

definition accum_pullback :: "estate \<Rightarrow> estate" where
  "accum_pullback s =
     accumulate_LCE3 (normalize_e3 (pullback_e3
       (accumulate_LCE2 (normalize_e2 (pullback_e2
         (accumulate_LCE1 (normalize_e1 s)))))))"

definition align_loop :: "config \<Rightarrow> estate \<Rightarrow> estate" where
  "align_loop cfg s = foldl (\<lambda>s n. align_pullback (interval cfg s)) s [0..<nTransients cfg]"

definition accum_loop :: "config \<Rightarrow> estate \<Rightarrow> estate" where
  "accum_loop cfg s = foldl (\<lambda>s n. accum_pullback (interval cfg s)) s [0..<nIterates cfg]"

text \<open>
  The conversion to rates divides by a built-in float. The accumulators are numpy.float64
  values once the accumulation loop has run at least once, and the built-in \<^verbatim>\<open>0.0\<close>
  they were initialised with otherwise.
\<close>

definition lce_kind :: "config \<Rightarrow> fkind" where
  "lce_kind cfg = (if nIterates cfg = 0 then Builtin else Numpy)"

definition convert :: "config \<Rightarrow> estate \<Rightarrow> pyerror + estate" where
  "convert cfg s =
     (let IntegrationTime = dt cfg * Fin (real (nItsPerPB cfg)) * Fin (real (nIterates cfg)) in
      case truediv (lce_kind cfg) (LCE1 s) IntegrationTime of Inl err \<Rightarrow> Inl err | Inr l1 \<Rightarrow>
      case truediv (lce_kind cfg) (LCE2 s) IntegrationTime of Inl err \<Rightarrow> Inl err | Inr l2 \<Rightarrow>
      case truediv (lce_kind cfg) (LCE3 s) IntegrationTime of Inl err \<Rightarrow> Inl err | Inr l3 \<Rightarrow>
      Inr (s\<lparr>LCE1 := l1, LCE2 := l2, LCE3 := l3\<rparr>))"

text \<open>The state when the accumulation loop is entered: the accumulators are set to zero.\<close>

definition accum_start :: "config \<Rightarrow> estate" where
  "accum_start cfg = (align_loop cfg lce_init)\<lparr>LCE1 := Fin 0, LCE2 := Fin 0, LCE3 := Fin 0\<rparr>"

definition estimate :: "config \<Rightarrow> pyerror + estate" where
  "estimate cfg = convert cfg (accum_loop cfg (accum_start cfg))"

subsection \<open>The whole script\<close>

record report =
  orbit_x :: "fl list"
  orbit_y :: "fl list"
  orbit_z :: "fl list"
  exponents :: "fl \<times> fl \<times> fl"
  Contraction :: fl
  Diff :: fl
  FractalDim :: fl

definition script :: "config \<Rightarrow> pyerror + report" where
  "script cfg =
     (case orbit cfg (orbit_transient cfg) of (x, y, z) \<Rightarrow>
      case estimate cfg of Inl err \<Rightarrow> Inl err | Inr s \<Rightarrow>
      let c = LorenzODETrJac (alpha cfg) (gamma cfg) (mu cfg) (beta cfg) (delta cfg) (lambd cfg)
                (Fin 0) (Fin 0) (Fin 0) in
      case FractalDimension3DODE (lce_kind cfg) (LCE1 s) (LCE2 s) (LCE3 s) of
        Inl err \<Rightarrow> Inl err
      | Inr fd \<Rightarrow>
          Inr \<lparr>orbit_x = x, orbit_y = y, orbit_z = z,
               exponents = (LCE1 s, LCE2 s, LCE3 s),
               Contraction = c, Diff = \<bar>LCE1 s + LCE2 s + LCE3 s - c\<bar>, FractalDim = fd\<rparr>)"

section \<open>Notions the properties are stated with\<close>

subsection \<open>Vectors of three reals\<close>

text \<open>
  Difference, dot product and Euclidean norm of real triples, and linear independence of
  three of them: no combination but the trivial one gives the zero vector.
\<close>

definition sub3 :: "real \<times> real \<times> real \<Rightarrow> real \<times> real \<times> real \<Rightarrow> real \<times> real \<times> real" where
  "sub3 u v = (case u of (u1, u2, u3) \<Rightarrow> case v of (v1, v2, v3) \<Rightarrow> (u1 - v1, u2 - v2, u3 - v3))"

definition dot3 :: "real \<times> real \<times> real \<Rightarrow> real \<times> real \<times> real \<Rightarrow> real" where
  "dot3 u v = (case u of (u1, u2, u3) \<Rightarrow> case v of (v1, v2, v3) \<Rightarrow> u1 * v1 + u2 * v2 + u3 * v3)"

definition norm3 :: "real \<times> real \<times> real \<Rightarrow> real" where
  "norm3 u = sqrt (dot3 u u)"

definition lin_indep3 ::
  "real \<times> real \<times> real \<Rightarrow> real \<times> real \<times> real \<Rightarrow> real \<times> real \<times> real \<Rightarrow> bool" where
  "lin_indep3 a b c \<longleftrightarrow>
     (\<forall>p q r. add3 (add3 (scale3 p a) (scale3 q b)) (scale3 r c) = (0, 0, 0)
        \<longrightarrow> p = 0 \<and> q = 0 \<and> r = 0)"

text \<open>A real triple as three finite floats, and the three tangent vectors of a state.\<close>

definition Fin3 :: "real \<times> real \<times> real \<Rightarrow> fl \<times> fl \<times> fl" where
  "Fin3 v = (case v of (v1, v2, v3) \<Rightarrow> (Fin v1, Fin v2, Fin v3))"

definition te1 :: "estate \<Rightarrow> fl \<times> fl \<times> fl" where
  "te1 s = (e1x s, e1y s, e1z s)"

definition te2 :: "estate \<Rightarrow> fl \<times> fl \<times> fl" where
  "te2 s = (e2x s, e2y s, e2z s)"

definition te3 :: "estate \<Rightarrow> fl \<times> fl \<times> fl" where
  "te3 s = (e3x s, e3y s, e3z s)"

subsection \<open>The linearized field at a fixed state\<close>

definition linearized_field ::
  "real \<Rightarrow> real \<Rightarrow> real \<Rightarrow> real \<Rightarrow> real \<Rightarrow> real \<Rightarrow> real \<Rightarrow> real \<Rightarrow> real
   \<Rightarrow> real \<times> real \<times> real \<Rightarrow> real \<times> real \<times> real" where
  "linearized_field p1 p2 p3 p4 p5 p6 x y z =
     (\<lambda>(dx, dy, dz). (LorenzDXDot p1 p2 p3 p4 p5 p6 x y z dx dy dz,
                       LorenzDYDot p1 p2 p3 p4 p5 p6 x y z dx dy dz,
                       LorenzDZDot p1 p2 p3 p4 p5 p6 x y z dx dy dz))"

subsection \<open>The pull-back intervals of the accumulation loop\<close>

text \<open>
  The state after \<open>j\<close> iterations of the accumulation loop, and the three values \<open>d\<close> takes
  in iteration \<open>j\<close>: the normalization factors of that pull-back.
\<close>

definition acc_state :: "config \<Rightarrow> nat \<Rightarrow> estate" where
  "acc_state cfg j = foldl (\<lambda>s n. accum_pullback (interval cfg s)) (accum_start cfg) [0..<j]"

definition factor1 :: "config \<Rightarrow> nat \<Rightarrow> fl" where
  "factor1 cfg j = d (normalize_e1 (interval cfg (acc_state cfg j)))"

definition factor2 :: "config \<Rightarrow> nat \<Rightarrow> fl" where
  "factor2 cfg j =
     d (normalize_e2 (pullback_e2 (accumulate_LCE1 (normalize_e1 (interval cfg (acc_state cfg j))))))"

definition factor3 :: "config \<Rightarrow> nat \<Rightarrow> fl" where
  "factor3 cfg j =
     d (normalize_e3 (pullback_e3 (accumulate_LCE2 (normalize_e2 (pullback_e2
         (accumulate_LCE1 (normalize_e1 (interval cfg (acc_state cfg j)))))))))"

subsection \<open>Two concrete states\<close>

text \<open>
  A state whose first two tangent vectors are identical, and one whose tangent vectors
  are independent but neither orthogonal nor of unit length.
\<close>

definition degenerate_state :: estate where
  "degenerate_state = lce_init\<lparr>e2x := Fin 1, e2y := Fin 0\<rparr>"

definition skewed_state :: estate where
  "skewed_state = lce_init\<lparr>e1x := Fin 3, e2x := Fin 1, e2y := Fin 2, e3x := Fin 1, e3y := Fin 1\<rparr>"

section \<open>Arithmetic of finite values\<close>

lemma numeral_fl [simp]: "(numeral k :: fl) = Fin (numeral k)"
proof (induction k)
  case One
  show ?case by (simp add: one_fl_def)
next
  case (Bit0 k)
  have "(numeral (num.Bit0 k) :: fl) = numeral k + numeral k"
    by (rule numeral_Bit0)
  also have "\<dots> = Fin (numeral k + numeral k)"
    by (simp add: Bit0)
  also have "\<dots> = Fin (numeral (num.Bit0 k))"
    by (simp only: numeral_Bit0)
  finally show ?case .
next
  case (Bit1 k)
  have "(numeral (num.Bit1 k) :: fl) = numeral k + numeral k + 1"
    by (rule numeral_Bit1)
  also have "\<dots> = Fin (numeral k + numeral k + 1)"
    by (simp add: Bit1 one_fl_def)
  also have "\<dots> = Fin (numeral (num.Bit1 k))"
    by (simp only: numeral_Bit1)
  finally show ?case .
qed

lemma minus_Fin [simp]: "Fin a - Fin b = Fin (a - b)"
  by (simp add: minus_fl_def)

section \<open>The integrator step\<close>

text \<open>
  C1. For every state, step size and derivative triple, \<open>RKThreeD\<close> returns the classical
  fourth-order Runge-Kutta step of the field \<open>(f, g, h)\<close>: four stage derivatives at the
  state, the state plus half of \<open>k1\<close>, plus half of \<open>k2\<close>, plus \<open>k3\<close>, each scaled by
  \<open>dt\<close>, combined as state plus \<open>(k1 + 2 k2 + 2 k3 + k4) / 6\<close> componentwise. It holds in
  every number type, so on exact reals and on floats alike.
\<close>

theorem RKThreeD_is_rk4_classical:
  fixes a b c d e i x y z dt :: "'a::{numeral,minus,times,inverse}"
  shows "RKThreeD a b c d e i x y z f g h dt =
    rk4_classical (\<lambda>(x, y, z). (f a b c d e i x y z, g a b c d e i x y z, h a b c d e i x y z))
      (x, y, z) dt"
  by (simp add: RKThreeD_def rk4_classical_def add3_def scale3_def div3_def Let_def)

text \<open>
  The integrator has no check of the step size. With the source's parameters and initial
  state, a step of size zero returns the state it was given.
\<close>

theorem RKThreeD_zero_step_no_error:
  "RKThreeD (Fin 5) (Fin 1) (Fin 2.2) (Fin 8) (Fin 1) (Fin 6.39) (Fin 1) (Fin 1) (Fin 1)
     LorenzXDot LorenzYDot LorenzZDot (Fin 0) = (Fin 1, Fin 1, Fin 1)"
  by (simp add: RKThreeD_def LorenzXDot_def LorenzYDot_def LorenzZDot_def Let_def)

text \<open>
  C9, as the code has it. \<open>RKThreeD\<close> does not validate \<open>dt\<close>: for a step size that is zero
  or negative it returns the Runge-Kutta combination for that step size like for any
  other, which for \<open>dt = 0\<close> (over exact reals) is the unchanged state.
\<close>

theorem RKThreeD_nonpositive_step:
  fixes a b c d e i x y z dt :: real
  assumes "dt \<le> 0"
  shows "RKThreeD a b c d e i x y z f g h dt =
      rk4_classical (\<lambda>(x, y, z). (f a b c d e i x y z, g a b c d e i x y z, h a b c d e i x y z))
        (x, y, z) dt
    \<and> (dt = 0 \<longrightarrow> RKThreeD a b c d e i x y z f g h dt = (x, y, z))"
  by (simp add: RKThreeD_def rk4_classical_def add3_def scale3_def div3_def Let_def)

theorem RKThreeD_nonpositive_step_witness:
  "(0::real) \<le> 0
   \<and> RKThreeD 5 1 2.2 8 1 6.39 1 1 1 LorenzXDot LorenzYDot LorenzZDot (0::real) = (1, 1, 1)"
  using RKThreeD_nonpositive_step [where dt = 0 and a = 5 and b = 1 and c = "2.2" and d = 8
      and e = 1 and i = "6.39" and x = 1 and y = 1 and z = 1
      and f = LorenzXDot and g = LorenzYDot and h = LorenzZDot]
  by fast

section \<open>The tangent-space step\<close>

lemma TangentFlowRKThreeD_rk4:
  fixes a b c d e i x y z dx dy dz dt :: "'a::{numeral,minus,times,inverse}"
  shows "TangentFlowRKThreeD a b c d e i x y z df dg dh dx dy dz dt =
    rk4_classical (\<lambda>(dx, dy, dz). (df a b c d e i x y z dx dy dz, dg a b c d e i x y z dx dy dz,
                                    dh a b c d e i x y z dx dy dz)) (dx, dy, dz) dt"
  by (simp add: TangentFlowRKThreeD_def rk4_classical_def add3_def scale3_def div3_def Let_def)

text \<open>
  C2. \<open>TangentFlowRKThreeD\<close> is the nonlinear stepper \<open>RKThreeD\<close> applied to the tangent
  vector, with the linearized derivative taken at the one state \<open>(x, y, z)\<close> it was given in
  all four stages. In the inner step of both estimation loops that state is the state
  \<open>RKThreeD\<close> has just returned: the new state of the step is the \<open>RKThreeD\<close> step of the old
  one, and each new tangent vector is the tangent step of the old vector at the new state.
\<close>

theorem TangentFlowRKThreeD_fixed_state:
  fixes a b c d e i x y z dx dy dz dt :: "'a::{numeral,minus,times,inverse}"
  shows "TangentFlowRKThreeD a b c d e i x y z df dg dh dx dy dz dt =
      RKThreeD a b c d e i dx dy dz
        (\<lambda>a b c d e i. df a b c d e i x y z) (\<lambda>a b c d e i. dg a b c d e i x y z)
        (\<lambda>a b c d e i. dh a b c d e i x y z) dt
    \<and> (xState (inner_step cfg s), yState (inner_step cfg s), zState (inner_step cfg s)) =
      RKThreeD (alpha cfg) (gamma cfg) (mu cfg) (beta cfg) (delta cfg) (lambd cfg)
        (xState s) (yState s) (zState s) LorenzXDot LorenzYDot LorenzZDot (config.dt cfg)
    \<and> te1 (inner_step cfg s) =
      TangentFlowRKThreeD (alpha cfg) (gamma cfg) (mu cfg) (beta cfg) (delta cfg) (lambd cfg)
        (xState (inner_step cfg s)) (yState (inner_step cfg s)) (zState (inner_step cfg s))
        LorenzDXDot LorenzDYDot LorenzDZDot (e1x s) (e1y s) (e1z s) (config.dt cfg)
    \<and> te2 (inner_step cfg s) =
      TangentFlowRKThreeD (alpha cfg) (gamma cfg) (mu cfg) (beta cfg) (delta cfg) (lambd cfg)
        (xState (inner_step cfg s)) (yState (inner_step cfg s)) (zState (inner_step cfg s))
        LorenzDXDot LorenzDYDot LorenzDZDot (e2x s) (e2y s) (e2z s) (config.dt cfg)
    \<and> te3 (inner_step cfg s) =
      TangentFlowRKThreeD (alpha cfg) (gamma cfg) (mu cfg) (beta cfg) (delta cfg) (lambd cfg)
        (xState (inner_step cfg s)) (yState (inner_step cfg s)) (zState (inner_step cfg s))
        LorenzDXDot LorenzDYDot LorenzDZDot (e3x s) (e3y s) (e3z s) (config.dt cfg)"
proof -
  have step: "TangentFlowRKThreeD a b c d e i x y z df dg dh dx dy dz dt =
      RKThreeD a b c d e i dx dy dz
        (\<lambda>a b c d e i. df a b c d e i x y z) (\<lambda>a b c d e i. dg a b c d e i x y z)
        (\<lambda>a b c d e i. dh a b c d e i x y z) dt"
    by (simp add: TangentFlowRKThreeD_def RKThreeD_def)
  have loop: "(xState (inner_step cfg s), yState (inner_step cfg s), zState (inner_step cfg s)) =
      RKThreeD (alpha cfg) (gamma cfg) (mu cfg) (beta cfg) (delta cfg) (lambd cfg)
        (xState s) (yState s) (zState s) LorenzXDot LorenzYDot LorenzZDot (config.dt cfg)"
    "te1 (inner_step cfg s) =
      TangentFlowRKThreeD (alpha cfg) (gamma cfg) (mu cfg) (beta cfg) (delta cfg) (lambd cfg)
        (xState (inner_step cfg s)) (yState (inner_step cfg s)) (zState (inner_step cfg s))
        LorenzDXDot LorenzDYDot LorenzDZDot (e1x s) (e1y s) (e1z s) (config.dt cfg)"
    "te2 (inner_step cfg s) =
      TangentFlowRKThreeD (alpha cfg) (gamma cfg) (mu cfg) (beta cfg) (delta cfg) (lambd cfg)
        (xState (inner_step cfg s)) (yState (inner_step cfg s)) (zState (inner_step cfg s))
        LorenzDXDot LorenzDYDot LorenzDZDot (e2x s) (e2y s) (e2z s) (config.dt cfg)"
    "te3 (inner_step cfg s) =
      TangentFlowRKThreeD (alpha cfg) (gamma cfg) (mu cfg) (beta cfg) (delta cfg) (lambd cfg)
        (xState (inner_step cfg s)) (yState (inner_step cfg s)) (zState (inner_step cfg s))
        LorenzDXDot LorenzDYDot LorenzDZDot (e3x s) (e3y s) (e3z s) (config.dt cfg)"
    by (simp_all add: inner_step_def Let_def te1_def te2_def te3_def split: prod.splits)
  from step loop show ?thesis by (intro conjI)
qed

subsection \<open>Linearity\<close>

lemma add3_sel: "add3 u v = (fst u + fst v, fst (snd u) + fst (snd v), snd (snd u) + snd (snd v))"
  by (simp add: add3_def split_beta)

lemma scale3_sel: "scale3 k v = (k * fst v, k * fst (snd v), k * snd (snd v))"
  by (simp add: scale3_def split_beta)

lemma div3_sel: "div3 v k = (fst v / k, fst (snd v) / k, snd (snd v) / k)"
  by (simp add: div3_def split_beta)

lemma sub3_sel: "sub3 u v = (fst u - fst v, fst (snd u) - fst (snd v), snd (snd u) - snd (snd v))"
  by (simp add: sub3_def split_beta)

lemma dot3_sel: "dot3 u v = fst u * fst v + fst (snd u) * fst (snd v) + snd (snd u) * snd (snd v)"
  by (simp add: dot3_def split_beta)

lemmas vec3_sel = add3_sel scale3_sel div3_sel sub3_sel dot3_sel

text \<open>A Runge-Kutta step of an additive field is additive, of a homogeneous field homogeneous.\<close>

lemma rk4_classical_additive:
  fixes F :: "real \<times> real \<times> real \<Rightarrow> real \<times> real \<times> real"
  assumes add: "\<And>p q. F (add3 p q) = add3 (F p) (F q)"
  shows "rk4_classical F (add3 u v) h = add3 (rk4_classical F u h) (rk4_classical F v h)"
proof -
  define k1u where "k1u = scale3 h (F u)"
  define k1v where "k1v = scale3 h (F v)"
  define k2u where "k2u = scale3 h (F (add3 u (div3 k1u 2)))"
  define k2v where "k2v = scale3 h (F (add3 v (div3 k1v 2)))"
  define k3u where "k3u = scale3 h (F (add3 u (div3 k2u 2)))"
  define k3v where "k3v = scale3 h (F (add3 v (div3 k2v 2)))"
  define k4u where "k4u = scale3 h (F (add3 u k3u))"
  define k4v where "k4v = scale3 h (F (add3 v k3v))"
  have sc: "scale3 h (add3 p q) = add3 (scale3 h p) (scale3 h q)" for p q :: "real \<times> real \<times> real"
    by (simp add: vec3_sel algebra_simps)
  have half: "add3 (add3 u v) (div3 (add3 p q) 2) = add3 (add3 u (div3 p 2)) (add3 v (div3 q 2))"
    for p q :: "real \<times> real \<times> real"
    by (simp add: vec3_sel add_divide_distrib)
  have full: "add3 (add3 u v) (add3 p q) = add3 (add3 u p) (add3 v q)"
    for p q :: "real \<times> real \<times> real"
    by (simp add: vec3_sel)
  have k1: "scale3 h (F (add3 u v)) = add3 k1u k1v"
    by (simp only: add sc k1u_def k1v_def)
  have k2: "scale3 h (F (add3 (add3 u v) (div3 (add3 k1u k1v) 2))) = add3 k2u k2v"
    by (simp only: half add sc k2u_def k2v_def)
  have k3: "scale3 h (F (add3 (add3 u v) (div3 (add3 k2u k2v) 2))) = add3 k3u k3v"
    by (simp only: half add sc k3u_def k3v_def)
  have k4: "scale3 h (F (add3 (add3 u v) (add3 k3u k3v))) = add3 k4u k4v"
    by (simp only: full add sc k4u_def k4v_def)
  have uv: "rk4_classical F (add3 u v) h =
      add3 (add3 u v) (div3 (add3 (add3 (add3 (add3 k1u k1v) (scale3 2 (add3 k2u k2v)))
        (scale3 2 (add3 k3u k3v))) (add3 k4u k4v)) 6)"
    by (simp only: rk4_classical_def Let_def k1 k2 k3 k4)
  have u: "rk4_classical F u h =
      add3 u (div3 (add3 (add3 (add3 k1u (scale3 2 k2u)) (scale3 2 k3u)) k4u) 6)"
    by (simp only: rk4_classical_def Let_def k1u_def k2u_def k3u_def k4u_def)
  have v: "rk4_classical F v h =
      add3 v (div3 (add3 (add3 (add3 k1v (scale3 2 k2v)) (scale3 2 k3v)) k4v) 6)"
    by (simp only: rk4_classical_def Let_def k1v_def k2v_def k3v_def k4v_def)
  show ?thesis
    unfolding uv u v by (simp add: vec3_sel add_divide_distrib)
qed

lemma rk4_classical_homogeneous:
  fixes F :: "real \<times> real \<times> real \<Rightarrow> real \<times> real \<times> real"
  assumes hom: "\<And>p. F (scale3 r p) = scale3 r (F p)"
  shows "rk4_classical F (scale3 r u) h = scale3 r (rk4_classical F u h)"
proof -
  define k1 where "k1 = scale3 h (F u)"
  define k2 where "k2 = scale3 h (F (add3 u (div3 k1 2)))"
  define k3 where "k3 = scale3 h (F (add3 u (div3 k2 2)))"
  define k4 where "k4 = scale3 h (F (add3 u k3))"
  have sc: "scale3 h (scale3 r p) = scale3 r (scale3 h p)" for p :: "real \<times> real \<times> real"
    by (simp add: vec3_sel)
  have half: "add3 (scale3 r u) (div3 (scale3 r p) 2) = scale3 r (add3 u (div3 p 2))"
    for p :: "real \<times> real \<times> real"
    by (simp add: vec3_sel algebra_simps)
  have full: "add3 (scale3 r u) (scale3 r p) = scale3 r (add3 u p)"
    for p :: "real \<times> real \<times> real"
    by (simp add: vec3_sel algebra_simps)
  have s1: "scale3 h (F (scale3 r u)) = scale3 r k1"
    by (simp only: hom sc k1_def)
  have s2: "scale3 h (F (add3 (scale3 r u) (div3 (scale3 r k1) 2))) = scale3 r k2"
    by (simp only: half hom sc k2_def)
  have s3: "scale3 h (F (add3 (scale3 r u) (div3 (scale3 r k2) 2))) = scale3 r k3"
    by (simp only: half hom sc k3_def)
  have s4: "scale3 h (F (add3 (scale3 r u) (scale3 r k3))) = scale3 r k4"
    by (simp only: full hom sc k4_def)
  have l: "rk4_classical F (scale3 r u) h =
      add3 (scale3 r u) (div3 (add3 (add3 (add3 (scale3 r k1) (scale3 2 (scale3 r k2)))
        (scale3 2 (scale3 r k3))) (scale3 r k4)) 6)"
    by (simp only: rk4_classical_def Let_def s1 s2 s3 s4)
  have r: "rk4_classical F u h =
      add3 u (div3 (add3 (add3 (add3 k1 (scale3 2 k2)) (scale3 2 k3)) k4) 6)"
    by (simp only: rk4_classical_def Let_def k1_def k2_def k3_def k4_def)
  show ?thesis
    unfolding l r by (simp add: vec3_sel algebra_simps add_divide_distrib)
qed

lemma linearized_field_additive:
  "linearized_field p1 p2 p3 p4 p5 p6 x y z (add3 p q) =
     add3 (linearized_field p1 p2 p3 p4 p5 p6 x y z p) (linearized_field p1 p2 p3 p4 p5 p6 x y z q)"
  by (simp add: linearized_field_def vec3_sel split_beta LorenzDXDot_def LorenzDYDot_def
      LorenzDZDot_def algebra_simps)

lemma linearized_field_homogeneous:
  "linearized_field p1 p2 p3 p4 p5 p6 x y z (scale3 r p) =
     scale3 r (linearized_field p1 p2 p3 p4 p5 p6 x y z p)"
  by (simp add: linearized_field_def vec3_sel split_beta LorenzDXDot_def LorenzDYDot_def
      LorenzDZDot_def algebra_simps)

text \<open>
  C10. For fixed parameters, base state and step size, and over exact reals, the tangent
  step with the Lorenz linearization is a linear map of the tangent vector: the step of a
  sum is the sum of the steps, and the step of \<open>r\<close> times a vector is \<open>r\<close> times its step.
\<close>

theorem TangentFlowRKThreeD_linear:
  fixes a b c d e i x y z dt u1 u2 u3 v1 v2 v3 r :: real
  shows "TangentFlowRKThreeD a b c d e i x y z LorenzDXDot LorenzDYDot LorenzDZDot
           (u1 + v1) (u2 + v2) (u3 + v3) dt =
         add3 (TangentFlowRKThreeD a b c d e i x y z LorenzDXDot LorenzDYDot LorenzDZDot u1 u2 u3 dt)
              (TangentFlowRKThreeD a b c d e i x y z LorenzDXDot LorenzDYDot LorenzDZDot v1 v2 v3 dt)
    \<and> TangentFlowRKThreeD a b c d e i x y z LorenzDXDot LorenzDYDot LorenzDZDot
           (r * u1) (r * u2) (r * u3) dt =
         scale3 r (TangentFlowRKThreeD a b c d e i x y z LorenzDXDot LorenzDYDot LorenzDZDot u1 u2 u3 dt)"
proof -
  have A: "rk4_classical (linearized_field a b c d e i x y z) (add3 (u1, u2, u3) (v1, v2, v3)) dt =
      add3 (rk4_classical (linearized_field a b c d e i x y z) (u1, u2, u3) dt)
           (rk4_classical (linearized_field a b c d e i x y z) (v1, v2, v3) dt)"
    by (rule rk4_classical_additive) (rule linearized_field_additive)
  have H: "rk4_classical (linearized_field a b c d e i x y z) (scale3 r (u1, u2, u3)) dt =
      scale3 r (rk4_classical (linearized_field a b c d e i x y z) (u1, u2, u3) dt)"
    by (rule rk4_classical_homogeneous) (rule linearized_field_homogeneous)
  have sum: "TangentFlowRKThreeD a b c d e i x y z LorenzDXDot LorenzDYDot LorenzDZDot
           (u1 + v1) (u2 + v2) (u3 + v3) dt =
         add3 (TangentFlowRKThreeD a b c d e i x y z LorenzDXDot LorenzDYDot LorenzDZDot u1 u2 u3 dt)
              (TangentFlowRKThreeD a b c d e i x y z LorenzDXDot LorenzDYDot LorenzDZDot v1 v2 v3 dt)"
    using A by (simp add: TangentFlowRKThreeD_rk4 linearized_field_def add3_def)
  have multiple: "TangentFlowRKThreeD a b c d e i x y z LorenzDXDot LorenzDYDot LorenzDZDot
           (r * u1) (r * u2) (r * u3) dt =
         scale3 r (TangentFlowRKThreeD a b c d e i x y z LorenzDXDot LorenzDYDot LorenzDZDot u1 u2 u3 dt)"
    using H by (simp add: TangentFlowRKThreeD_rk4 linearized_field_def scale3_def)
  from sum multiple show ?thesis ..
qed

section \<open>The fractal dimension\<close>

text \<open>
  C7. With the tolerance \<open>0.01\<close>, \<open>FractalDimension3DODE\<close> returns 0 when \<open>LCE1\<close> is below
  minus the tolerance; 1 when \<open>LCE1\<close> is within the tolerance and \<open>LCE2\<close> below minus the
  tolerance; 2 when \<open>LCE1\<close> is within the tolerance and \<open>LCE2\<close> is not below minus the
  tolerance; and 2 plus \<open>(LCE1 + LCE2) / |LCE3|\<close> when \<open>LCE1\<close> is above the tolerance, which
  for finite exponents with \<open>LCE3\<close> not zero is that real number. The four examples of the
  specification are included. It holds whichever kind of number is passed, and needs no
  ordering of the exponents.
\<close>

theorem FractalDimension3DODE_cases:
  fixes k :: fkind and L1 L2 L3 :: fl and l1 l2 l3 :: real
  shows "(L1 < - Fin 0.01 \<longrightarrow> FractalDimension3DODE k L1 L2 L3 = Inr (Fin 0))
   \<and> (\<bar>L1\<bar> \<le> Fin 0.01 \<and> L2 < - Fin 0.01 \<longrightarrow> FractalDimension3DODE k L1 L2 L3 = Inr (Fin 1))
   \<and> (\<bar>L1\<bar> \<le> Fin 0.01 \<and> - Fin 0.01 \<le> L2 \<longrightarrow> FractalDimension3DODE k L1 L2 L3 = Inr (Fin 2))
   \<and> (Fin 0.01 < L1 \<longrightarrow> FractalDimension3DODE k L1 L2 L3 =
         (case truediv k (L1 + L2) \<bar>L3\<bar> of Inl err \<Rightarrow> Inl err | Inr q \<Rightarrow> Inr (Fin 2 + q)))
   \<and> (0.01 < l1 \<and> l3 \<noteq> 0 \<longrightarrow>
         FractalDimension3DODE k (Fin l1) (Fin l2) (Fin l3) = Inr (Fin (2 + (l1 + l2) / \<bar>l3\<bar>)))
   \<and> FractalDimension3DODE k (Fin (- 1)) (Fin (- 2)) (Fin (- 3)) = Inr (Fin 0)
   \<and> FractalDimension3DODE k (Fin 0) (Fin (- 1)) (Fin (- 2)) = Inr (Fin 1)
   \<and> FractalDimension3DODE k (Fin 0) (Fin 0) (Fin (- 1)) = Inr (Fin 2)
   \<and> FractalDimension3DODE k (Fin 1) (Fin 0) (Fin (- 2)) = Inr (Fin 2.5)"
proof -
  have branches: "(L1 < - Fin 0.01 \<longrightarrow> FractalDimension3DODE k L1 L2 L3 = Inr (Fin 0))
   \<and> (\<bar>L1\<bar> \<le> Fin 0.01 \<and> L2 < - Fin 0.01 \<longrightarrow> FractalDimension3DODE k L1 L2 L3 = Inr (Fin 1))
   \<and> (\<bar>L1\<bar> \<le> Fin 0.01 \<and> - Fin 0.01 \<le> L2 \<longrightarrow> FractalDimension3DODE k L1 L2 L3 = Inr (Fin 2))
   \<and> (Fin 0.01 < L1 \<longrightarrow> FractalDimension3DODE k L1 L2 L3 =
         (case truediv k (L1 + L2) \<bar>L3\<bar> of Inl err \<Rightarrow> Inl err | Inr q \<Rightarrow> Inr (Fin 2 + q)))"
    by (cases L1; cases L2) (auto simp add: FractalDimension3DODE_def Let_def)
  have chaotic: "0.01 < l1 \<and> l3 \<noteq> 0 \<longrightarrow>
      FractalDimension3DODE k (Fin l1) (Fin l2) (Fin l3) = Inr (Fin (2 + (l1 + l2) / \<bar>l3\<bar>))"
    by (cases k) (auto simp add: FractalDimension3DODE_def Let_def)
  have examples: "FractalDimension3DODE k (Fin (- 1)) (Fin (- 2)) (Fin (- 3)) = Inr (Fin 0)"
    "FractalDimension3DODE k (Fin 0) (Fin (- 1)) (Fin (- 2)) = Inr (Fin 1)"
    "FractalDimension3DODE k (Fin 0) (Fin 0) (Fin (- 1)) = Inr (Fin 2)"
    "FractalDimension3DODE k (Fin 1) (Fin 0) (Fin (- 2)) = Inr (Fin 2.5)"
    by (cases k; simp add: FractalDimension3DODE_def Let_def)+
  from branches chaotic examples show ?thesis by (intro conjI) simp_all
qed

theorem FractalDimension3DODE_cases_witness:
  "Fin (- 0.5) < - Fin 0.01
   \<and> FractalDimension3DODE Numpy (Fin (- 0.5)) (Fin (- 1)) (Fin (- 2)) = Inr (Fin 0)
   \<and> \<bar>Fin 0.005\<bar> \<le> Fin 0.01 \<and> Fin (- 1) < - Fin 0.01
   \<and> FractalDimension3DODE Numpy (Fin 0.005) (Fin (- 1)) (Fin (- 2)) = Inr (Fin 1)
   \<and> - Fin 0.01 \<le> Fin (- 0.005)
   \<and> FractalDimension3DODE Numpy (Fin 0.005) (Fin (- 0.005)) (Fin (- 2)) = Inr (Fin 2)
   \<and> (0.01::real) < 0.9 \<and> (- 14.5::real) \<noteq> 0
   \<and> FractalDimension3DODE Numpy (Fin 0.9) (Fin 0) (Fin (- 14.5)) = Inr (Fin (2 + (0.9 + 0) / \<bar>- 14.5\<bar>))"
proof -
  have h1: "Fin (- 0.5) < - Fin 0.01"
    by simp
  have h2: "\<bar>Fin 0.005\<bar> \<le> Fin 0.01 \<and> Fin (- 1) < - Fin 0.01"
    by simp
  have h3: "\<bar>Fin 0.005\<bar> \<le> Fin 0.01 \<and> - Fin 0.01 \<le> Fin (- 0.005)"
    by simp
  have h4: "(0.01::real) < 0.9 \<and> (- 14.5::real) \<noteq> 0"
    by simp
  from h1 FractalDimension3DODE_cases [where k = Numpy and ?L1.0 = "Fin (- 0.5)" and ?L2.0 = "Fin (- 1)"
      and ?L3.0 = "Fin (- 2)"]
  have r1: "FractalDimension3DODE Numpy (Fin (- 0.5)) (Fin (- 1)) (Fin (- 2)) = Inr (Fin 0)"
    by fast
  from h2 FractalDimension3DODE_cases [where k = Numpy and ?L1.0 = "Fin 0.005" and ?L2.0 = "Fin (- 1)"
      and ?L3.0 = "Fin (- 2)"]
  have r2: "FractalDimension3DODE Numpy (Fin 0.005) (Fin (- 1)) (Fin (- 2)) = Inr (Fin 1)"
    by fast
  from h3 FractalDimension3DODE_cases [where k = Numpy and ?L1.0 = "Fin 0.005"
      and ?L2.0 = "Fin (- 0.005)" and ?L3.0 = "Fin (- 2)"]
  have r3: "FractalDimension3DODE Numpy (Fin 0.005) (Fin (- 0.005)) (Fin (- 2)) = Inr (Fin 2)"
    by fast
  from h4 FractalDimension3DODE_cases [where k = Numpy and ?l1.0 = "0.9" and ?l2.0 = 0
      and ?l3.0 = "- 14.5"]
  have r4: "FractalDimension3DODE Numpy (Fin 0.9) (Fin 0) (Fin (- 14.5)) =
      Inr (Fin (2 + (0.9 + 0) / \<bar>- 14.5\<bar>))"
    by fast
  from h1 h2 h3 h4 r1 r2 r3 r4 show ?thesis by (intro conjI) fast+
qed

text \<open>
  With a positive first exponent and a last exponent of exactly zero, as numpy.float64
  values (what the script itself passes), the call returns plus infinity: nothing is
  raised and nothing is clamped.
\<close>

theorem FractalDimension3DODE_inf_unflagged:
  "FractalDimension3DODE Numpy (Fin 1) (Fin 0) (Fin 0) = Inr PInf"
  by (simp add: FractalDimension3DODE_def Let_def inf_of_sign_def)

text \<open>
  C8, as the code has it. \<open>FractalDimension3DODE\<close> has no handling of \<open>LCE3 = 0\<close> of its own.
  When \<open>LCE1\<close> is above the tolerance and \<open>LCE3\<close> is zero, the outcome is that of the division:
  on built-in numbers Python raises \<open>ZeroDivisionError\<close>; on numpy.float64 values the call
  returns a value that is not finite, plus infinity when \<open>LCE2\<close> is not negative.
\<close>

theorem FractalDimension3DODE_zero_LCE3:
  assumes "Fin 0.01 < L1"
  shows "FractalDimension3DODE Builtin L1 L2 (Fin 0) = Inl ZeroDivisionError
    \<and> (\<exists>q. FractalDimension3DODE Numpy L1 L2 (Fin 0) = Inr q \<and> (\<forall>r. q \<noteq> Fin r))
    \<and> (Fin 0 \<le> L2 \<longrightarrow> FractalDimension3DODE Numpy L1 L2 (Fin 0) = Inr PInf)"
  using assms
  by (cases L1; cases L2) (auto simp add: FractalDimension3DODE_def Let_def inf_of_sign_def)

theorem FractalDimension3DODE_zero_LCE3_witness:
  "Fin 0.01 < Fin 0.9 \<and> Fin 0 \<le> Fin 0.2
   \<and> FractalDimension3DODE Builtin (Fin 0.9) (Fin 0.2) (Fin 0) = Inl ZeroDivisionError
   \<and> FractalDimension3DODE Numpy (Fin 0.9) (Fin 0.2) (Fin 0) = Inr PInf"
proof -
  have h: "Fin 0.01 < Fin 0.9"
    by simp
  have o: "Fin 0 \<le> Fin 0.2"
    by simp
  from FractalDimension3DODE_zero_LCE3 [OF h, of "Fin 0.2"] o h show ?thesis
    by fast
qed

section \<open>The pull-back block\<close>

subsection \<open>Dot products and norms of real triples\<close>

lemma dot3_self_nonneg: "0 \<le> dot3 a a"
  by (simp add: dot3_sel)

lemma dot3_self_zero_iff: "dot3 a a = 0 \<longleftrightarrow> a = (0, 0, 0)"
proof
  assume z: "dot3 a a = 0"
  have n: "0 \<le> fst a * fst a" "0 \<le> fst (snd a) * fst (snd a)" "0 \<le> snd (snd a) * snd (snd a)"
    by simp_all
  from z n have "fst a * fst a = 0" "fst (snd a) * fst (snd a) = 0" "snd (snd a) * snd (snd a) = 0"
    unfolding dot3_sel by linarith+
  then show "a = (0, 0, 0)"
    by (simp add: prod_eq_iff)
next
  assume "a = (0, 0, 0)"
  then show "dot3 a a = 0" by (simp add: dot3_def)
qed

lemma norm3_pos: "a \<noteq> (0, 0, 0) \<Longrightarrow> 0 < norm3 a"
  using dot3_self_nonneg [of a] dot3_self_zero_iff [of a] by (simp add: norm3_def less_le)

lemma norm3_square: "norm3 a * norm3 a = dot3 a a"
  by (simp add: norm3_def dot3_self_nonneg)

lemma dot3_commute: "dot3 u v = dot3 v u"
  by (simp add: dot3_sel algebra_simps)

lemma dot3_sub_right: "dot3 u (sub3 p q) = dot3 u p - dot3 u q"
  by (simp add: vec3_sel algebra_simps)

lemma dot3_add_right: "dot3 u (add3 p q) = dot3 u p + dot3 u q"
  by (simp add: vec3_sel algebra_simps)

lemma dot3_scale_right: "dot3 u (scale3 k p) = k * dot3 u p"
  by (simp add: vec3_sel algebra_simps)

lemma dot3_div_right: "dot3 u (div3 p k) = dot3 u p / k"
  by (simp add: vec3_sel add_divide_distrib)

lemma dot3_div_left: "dot3 (div3 p k) u = dot3 p u / k"
  by (simp add: vec3_sel add_divide_distrib)

lemma unit_after_division:
  assumes "a \<noteq> (0, 0, 0)"
  shows "dot3 (div3 a (norm3 a)) (div3 a (norm3 a)) = 1"
proof -
  have pos: "0 < norm3 a" using assms by (rule norm3_pos)
  have "dot3 (div3 a (norm3 a)) (div3 a (norm3 a)) = dot3 a a / norm3 a / norm3 a"
    by (simp only: dot3_div_right dot3_div_left)
  also have "\<dots> = norm3 a * norm3 a / norm3 a / norm3 a"
    by (simp only: norm3_square)
  also have "\<dots> = 1"
    using pos by simp
  finally show ?thesis .
qed

lemma norm3_unit: "dot3 u u = 1 \<Longrightarrow> norm3 u = 1"
  by (simp add: norm3_def)

lemma lin_indep3_first: "lin_indep3 a b c \<Longrightarrow> a \<noteq> (0, 0, 0)"
proof
  assume li: "lin_indep3 a b c" and z: "a = (0, 0, 0)"
  have "add3 (add3 (scale3 1 a) (scale3 0 b)) (scale3 0 c) = (0, 0, 0)"
    by (simp add: z vec3_sel)
  with li have "(1::real) = 0" unfolding lin_indep3_def by blast
  then show False by simp
qed

lemma lin_indep3_second: "lin_indep3 a b c \<Longrightarrow> sub3 b (scale3 k a) \<noteq> (0, 0, 0)"
proof
  assume li: "lin_indep3 a b c" and z: "sub3 b (scale3 k a) = (0, 0, 0)"
  have "add3 (add3 (scale3 (- k) a) (scale3 1 b)) (scale3 0 c) = sub3 b (scale3 k a)"
    by (simp add: vec3_sel)
  with li z have "(1::real) = 0" unfolding lin_indep3_def by metis
  then show False by simp
qed

lemma lin_indep3_third:
  "lin_indep3 a b c \<Longrightarrow> sub3 c (add3 (scale3 p a) (scale3 q b)) \<noteq> (0, 0, 0)"
proof
  assume li: "lin_indep3 a b c" and z: "sub3 c (add3 (scale3 p a) (scale3 q b)) = (0, 0, 0)"
  have "add3 (add3 (scale3 (- p) a) (scale3 (- q) b)) (scale3 1 c) =
      sub3 c (add3 (scale3 p a) (scale3 q b))"
    by (simp add: vec3_sel)
  with li z have "(1::real) = 0" unfolding lin_indep3_def by metis
  then show False by simp
qed

lemma scale3_div3: "scale3 k (div3 a f) = scale3 (k / f) (a :: real \<times> real \<times> real)"
  by (simp add: vec3_sel divide_inverse algebra_simps)

lemma residual2_form:
  "sub3 b (scale3 k (div3 a f)) = sub3 b (scale3 (k / f) a)"
  by (simp add: scale3_div3)

lemma residual3_form:
  "sub3 c (add3 (scale3 p (div3 a f)) (scale3 q (div3 (sub3 b (scale3 k a)) g))) =
   sub3 c (add3 (scale3 (p / f - q / g * k) a) (scale3 (q / g) b))"
  by (simp add: vec3_sel divide_inverse algebra_simps)

subsection \<open>The stages of the block\<close>

text \<open>What each stage leaves unchanged, and what it does to finite tangent vectors.\<close>

lemma Fin3_eq: "Fin3 (v1, v2, v3) = (Fin v1, Fin v2, Fin v3)"
  by (simp add: Fin3_def)

lemma normalize_e1_others:
  "te2 (normalize_e1 s) = te2 s" "te3 (normalize_e1 s) = te3 s"
  "LCE1 (normalize_e1 s) = LCE1 s" "LCE2 (normalize_e1 s) = LCE2 s" "LCE3 (normalize_e1 s) = LCE3 s"
  by (simp_all add: normalize_e1_def Let_def te2_def te3_def)

lemma normalize_e2_others:
  "te1 (normalize_e2 s) = te1 s" "te3 (normalize_e2 s) = te3 s"
  "LCE1 (normalize_e2 s) = LCE1 s" "LCE2 (normalize_e2 s) = LCE2 s" "LCE3 (normalize_e2 s) = LCE3 s"
  by (simp_all add: normalize_e2_def Let_def te1_def te3_def)

lemma normalize_e3_others:
  "te1 (normalize_e3 s) = te1 s" "te2 (normalize_e3 s) = te2 s"
  "LCE1 (normalize_e3 s) = LCE1 s" "LCE2 (normalize_e3 s) = LCE2 s" "LCE3 (normalize_e3 s) = LCE3 s"
  by (simp_all add: normalize_e3_def Let_def te1_def te2_def)

lemma pullback_e2_others:
  "te1 (pullback_e2 s) = te1 s" "te3 (pullback_e2 s) = te3 s" "d (pullback_e2 s) = d s"
  "LCE1 (pullback_e2 s) = LCE1 s" "LCE2 (pullback_e2 s) = LCE2 s" "LCE3 (pullback_e2 s) = LCE3 s"
  by (simp_all add: pullback_e2_def Let_def te1_def te3_def)

lemma pullback_e3_others:
  "te1 (pullback_e3 s) = te1 s" "te2 (pullback_e3 s) = te2 s" "d (pullback_e3 s) = d s"
  "LCE1 (pullback_e3 s) = LCE1 s" "LCE2 (pullback_e3 s) = LCE2 s" "LCE3 (pullback_e3 s) = LCE3 s"
  by (simp_all add: pullback_e3_def Let_def te1_def te2_def)

lemma accumulate_LCE1_fields:
  "te1 (accumulate_LCE1 s) = te1 s" "te2 (accumulate_LCE1 s) = te2 s" "te3 (accumulate_LCE1 s) = te3 s"
  "d (accumulate_LCE1 s) = d s" "LCE1 (accumulate_LCE1 s) = LCE1 s + log_np (d s)"
  "LCE2 (accumulate_LCE1 s) = LCE2 s" "LCE3 (accumulate_LCE1 s) = LCE3 s"
  by (simp_all add: accumulate_LCE1_def te1_def te2_def te3_def)

lemma accumulate_LCE2_fields:
  "te1 (accumulate_LCE2 s) = te1 s" "te2 (accumulate_LCE2 s) = te2 s" "te3 (accumulate_LCE2 s) = te3 s"
  "d (accumulate_LCE2 s) = d s" "LCE2 (accumulate_LCE2 s) = LCE2 s + log_np (d s)"
  "LCE1 (accumulate_LCE2 s) = LCE1 s" "LCE3 (accumulate_LCE2 s) = LCE3 s"
  by (simp_all add: accumulate_LCE2_def te1_def te2_def te3_def)

lemma accumulate_LCE3_fields:
  "te1 (accumulate_LCE3 s) = te1 s" "te2 (accumulate_LCE3 s) = te2 s" "te3 (accumulate_LCE3 s) = te3 s"
  "d (accumulate_LCE3 s) = d s" "LCE3 (accumulate_LCE3 s) = LCE3 s + log_np (d s)"
  "LCE1 (accumulate_LCE3 s) = LCE1 s" "LCE2 (accumulate_LCE3 s) = LCE2 s"
  by (simp_all add: accumulate_LCE3_def te1_def te2_def te3_def)

lemmas stage_fields = normalize_e1_others normalize_e2_others normalize_e3_others
  pullback_e2_others pullback_e3_others accumulate_LCE1_fields accumulate_LCE2_fields
  accumulate_LCE3_fields

lemma sqrt_np_squares:
  "sqrt_np (Fin (a1 * a1 + a2 * a2 + a3 * a3)) = Fin (norm3 (a1, a2, a3))"
proof -
  have "0 \<le> a1 * a1 + a2 * a2 + a3 * a3"
    by (intro add_nonneg_nonneg) simp_all
  then have "\<not> a1 * a1 + a2 * a2 + a3 * a3 < 0"
    by (simp only: not_less)
  then show ?thesis by (simp add: norm3_def dot3_def)
qed

lemma normalize_e1_Fin:
  assumes "te1 s = Fin3 a" "a \<noteq> (0, 0, 0)"
  shows "te1 (normalize_e1 s) = Fin3 (div3 a (norm3 a))" and "d (normalize_e1 s) = Fin (norm3 a)"
proof -
  obtain a1 a2 a3 where a: "a = (a1, a2, a3)" by (cases a) auto
  have e: "e1x s = Fin a1" "e1y s = Fin a2" "e1z s = Fin a3"
    using assms(1) by (simp_all add: a te1_def Fin3_def)
  have nz: "norm3 (a1, a2, a3) \<noteq> 0"
    using norm3_pos [OF assms(2)] by (simp add: a)
  show "d (normalize_e1 s) = Fin (norm3 a)"
    by (simp add: normalize_e1_def Let_def e sqrt_np_squares a del: sqrt_np.simps)
  show "te1 (normalize_e1 s) = Fin3 (div3 a (norm3 a))"
    using nz by (simp add: normalize_e1_def Let_def e sqrt_np_squares a te1_def Fin3_def div3_def del: sqrt_np.simps)
qed

lemma normalize_e2_Fin:
  assumes "te2 s = Fin3 a" "a \<noteq> (0, 0, 0)"
  shows "te2 (normalize_e2 s) = Fin3 (div3 a (norm3 a))" and "d (normalize_e2 s) = Fin (norm3 a)"
proof -
  obtain a1 a2 a3 where a: "a = (a1, a2, a3)" by (cases a) auto
  have e: "e2x s = Fin a1" "e2y s = Fin a2" "e2z s = Fin a3"
    using assms(1) by (simp_all add: a te2_def Fin3_def)
  have nz: "norm3 (a1, a2, a3) \<noteq> 0"
    using norm3_pos [OF assms(2)] by (simp add: a)
  show "d (normalize_e2 s) = Fin (norm3 a)"
    by (simp add: normalize_e2_def Let_def e sqrt_np_squares a del: sqrt_np.simps)
  show "te2 (normalize_e2 s) = Fin3 (div3 a (norm3 a))"
    using nz by (simp add: normalize_e2_def Let_def e sqrt_np_squares a te2_def Fin3_def div3_def del: sqrt_np.simps)
qed

lemma normalize_e3_Fin:
  assumes "te3 s = Fin3 a" "a \<noteq> (0, 0, 0)"
  shows "te3 (normalize_e3 s) = Fin3 (div3 a (norm3 a))" and "d (normalize_e3 s) = Fin (norm3 a)"
proof -
  obtain a1 a2 a3 where a: "a = (a1, a2, a3)" by (cases a) auto
  have e: "e3x s = Fin a1" "e3y s = Fin a2" "e3z s = Fin a3"
    using assms(1) by (simp_all add: a te3_def Fin3_def)
  have nz: "norm3 (a1, a2, a3) \<noteq> 0"
    using norm3_pos [OF assms(2)] by (simp add: a)
  show "d (normalize_e3 s) = Fin (norm3 a)"
    by (simp add: normalize_e3_def Let_def e sqrt_np_squares a del: sqrt_np.simps)
  show "te3 (normalize_e3 s) = Fin3 (div3 a (norm3 a))"
    using nz by (simp add: normalize_e3_def Let_def e sqrt_np_squares a te3_def Fin3_def div3_def del: sqrt_np.simps)
qed

lemma pullback_e2_Fin:
  assumes "te1 s = Fin3 u" "te2 s = Fin3 b"
  shows "te2 (pullback_e2 s) = Fin3 (sub3 b (scale3 (dot3 u b) u))"
proof -
  obtain u1 u2 u3 where u: "u = (u1, u2, u3)" by (cases u) auto
  obtain b1 b2 b3 where b: "b = (b1, b2, b3)" by (cases b) auto
  have e: "e1x s = Fin u1" "e1y s = Fin u2" "e1z s = Fin u3"
      "e2x s = Fin b1" "e2y s = Fin b2" "e2z s = Fin b3"
    using assms by (simp_all add: u b te1_def te2_def Fin3_def)
  show ?thesis
    by (simp add: pullback_e2_def Let_def e u b te2_def Fin3_def sub3_def scale3_def dot3_def)
qed

lemma pullback_e3_Fin:
  assumes "te1 s = Fin3 u" "te2 s = Fin3 v" "te3 s = Fin3 c"
  shows "te3 (pullback_e3 s) = Fin3 (sub3 c (add3 (scale3 (dot3 u c) u) (scale3 (dot3 v c) v)))"
proof -
  obtain u1 u2 u3 where u: "u = (u1, u2, u3)" by (cases u) auto
  obtain v1 v2 v3 where v: "v = (v1, v2, v3)" by (cases v) auto
  obtain c1 c2 c3 where c: "c = (c1, c2, c3)" by (cases c) auto
  have e: "e1x s = Fin u1" "e1y s = Fin u2" "e1z s = Fin u3"
      "e2x s = Fin v1" "e2y s = Fin v2" "e2z s = Fin v3"
      "e3x s = Fin c1" "e3y s = Fin c2" "e3z s = Fin c3"
    using assms by (simp_all add: u v c te1_def te2_def te3_def Fin3_def)
  show ?thesis
    by (simp add: pullback_e3_def Let_def e u v c te3_def Fin3_def sub3_def add3_def scale3_def dot3_def)
qed

lemma log_np_pos: "0 < f \<Longrightarrow> log_np (Fin f) = Fin (ln f)"
  by simp

text \<open>
  C3. When the three tangent vectors entering the pull-back block of the accumulation loop
  are finite and linearly independent, the block leaves finite vectors \<open>u\<close>, \<open>v\<close>, \<open>w\<close> in
  the same three slots, each of Euclidean norm one and with all three pairwise dot
  products zero. The value \<open>d\<close> takes for the first vector is the norm of that vector as
  it entered; for the second and the third it is the norm of the vector after its
  projections onto the already normalized vectors before it were subtracted, and before
  the division by \<open>d\<close>; each output vector is that residual divided by its factor, and the
  logarithm of each factor is what is added to the accumulator of its index.
\<close>

theorem accum_pullback_orthonormal:
  assumes e1: "te1 s = Fin3 a" and e2: "te2 s = Fin3 b" and e3: "te3 s = Fin3 c"
    and li: "lin_indep3 a b c"
  shows "\<exists>u v w f1 f2 f3.
      te1 (accum_pullback s) = Fin3 u \<and> te2 (accum_pullback s) = Fin3 v
    \<and> te3 (accum_pullback s) = Fin3 w
    \<and> norm3 u = 1 \<and> norm3 v = 1 \<and> norm3 w = 1
    \<and> dot3 u v = 0 \<and> dot3 u w = 0 \<and> dot3 v w = 0
    \<and> f1 = norm3 a \<and> u = div3 a f1
    \<and> f2 = norm3 (sub3 b (scale3 (dot3 u b) u)) \<and> v = div3 (sub3 b (scale3 (dot3 u b) u)) f2
    \<and> f3 = norm3 (sub3 c (add3 (scale3 (dot3 u c) u) (scale3 (dot3 v c) v)))
    \<and> w = div3 (sub3 c (add3 (scale3 (dot3 u c) u) (scale3 (dot3 v c) v))) f3
    \<and> 0 < f1 \<and> 0 < f2 \<and> 0 < f3
    \<and> d (normalize_e1 s) = Fin f1
    \<and> d (normalize_e2 (pullback_e2 (accumulate_LCE1 (normalize_e1 s)))) = Fin f2
    \<and> d (accum_pullback s) = Fin f3
    \<and> LCE1 (accum_pullback s) = LCE1 s + Fin (ln f1)
    \<and> LCE2 (accum_pullback s) = LCE2 s + Fin (ln f2)
    \<and> LCE3 (accum_pullback s) = LCE3 s + Fin (ln f3)"
proof -
  define f1 where "f1 = norm3 a"
  define u where "u = div3 a f1"
  define r2 where "r2 = sub3 b (scale3 (dot3 u b) u)"
  define f2 where "f2 = norm3 r2"
  define v where "v = div3 r2 f2"
  define r3 where "r3 = sub3 c (add3 (scale3 (dot3 u c) u) (scale3 (dot3 v c) v))"
  define f3 where "f3 = norm3 r3"
  define w where "w = div3 r3 f3"
  define s1 where "s1 = normalize_e1 s"
  define s2 where "s2 = accumulate_LCE1 s1"
  define s3 where "s3 = pullback_e2 s2"
  define s4 where "s4 = normalize_e2 s3"
  define s5 where "s5 = accumulate_LCE2 s4"
  define s6 where "s6 = pullback_e3 s5"
  define s7 where "s7 = normalize_e3 s6"
  define s8 where "s8 = accumulate_LCE3 s7"
  have s8: "accum_pullback s = s8"
    by (simp add: accum_pullback_def s8_def s7_def s6_def s5_def s4_def s3_def s2_def s1_def)
  \<comment> \<open>the three residuals are non-zero\<close>
  have a0: "a \<noteq> (0, 0, 0)" using li by (rule lin_indep3_first)
  have f1: "0 < f1" unfolding f1_def using a0 by (rule norm3_pos)
  have r2_form: "r2 = sub3 b (scale3 (dot3 u b / f1) a)"
    by (simp add: r2_def u_def scale3_div3)
  have r20: "r2 \<noteq> (0, 0, 0)"
    unfolding r2_form using li by (rule lin_indep3_second)
  have f2: "0 < f2" unfolding f2_def using r20 by (rule norm3_pos)
  have r3_form: "r3 = sub3 c (add3 (scale3 (dot3 u c / f1 - dot3 v c / f2 * (dot3 u b / f1)) a)
      (scale3 (dot3 v c / f2) b))"
    unfolding r3_def v_def r2_form u_def by (rule residual3_form)
  have r30: "r3 \<noteq> (0, 0, 0)"
    unfolding r3_form using li by (rule lin_indep3_third)
  have f3: "0 < f3" unfolding f3_def using r30 by (rule norm3_pos)
  \<comment> \<open>orthonormality\<close>
  have uu: "dot3 u u = 1" unfolding u_def f1_def using a0 by (rule unit_after_division)
  have vv: "dot3 v v = 1" unfolding v_def f2_def using r20 by (rule unit_after_division)
  have ww: "dot3 w w = 1" unfolding w_def f3_def using r30 by (rule unit_after_division)
  have ur2: "dot3 u r2 = 0"
    by (simp add: r2_def dot3_sub_right dot3_scale_right uu)
  have uv: "dot3 u v = 0"
    by (simp add: v_def dot3_div_right ur2)
  have vu: "dot3 v u = 0"
    using uv by (simp add: dot3_commute)
  have ur3: "dot3 u r3 = 0"
    by (simp add: r3_def dot3_sub_right dot3_add_right dot3_scale_right uu uv)
  have vr3: "dot3 v r3 = 0"
    by (simp add: r3_def dot3_sub_right dot3_add_right dot3_scale_right vv vu)
  have uw: "dot3 u w = 0"
    by (simp add: w_def dot3_div_right ur3)
  have vw: "dot3 v w = 0"
    by (simp add: w_def dot3_div_right vr3)
  \<comment> \<open>the stages of the block\<close>
  have t1: "te1 s1 = Fin3 u" "d s1 = Fin f1"
    unfolding s1_def u_def f1_def using e1 a0 by (rule normalize_e1_Fin)+
  have o1: "te2 s1 = Fin3 b" "te3 s1 = Fin3 c"
    by (simp_all add: s1_def stage_fields e2 e3)
  have t2: "te1 s2 = Fin3 u" "te2 s2 = Fin3 b" "te3 s2 = Fin3 c" "LCE1 s2 = LCE1 s + Fin (ln f1)"
    using f1 by (simp_all add: s2_def stage_fields t1 o1 s1_def [symmetric]) (simp add: s1_def stage_fields)
  have t3: "te1 s3 = Fin3 u" "te2 s3 = Fin3 r2" "te3 s3 = Fin3 c"
    unfolding r2_def using pullback_e2_Fin [OF t2(1) t2(2)] by (simp_all add: s3_def stage_fields t2)
  have t4: "te1 s4 = Fin3 u" "te2 s4 = Fin3 v" "te3 s4 = Fin3 c" "d s4 = Fin f2"
    using normalize_e2_Fin [OF t3(2) r20]
    by (simp_all add: s4_def stage_fields t3 v_def f2_def)
  have t5: "te1 s5 = Fin3 u" "te2 s5 = Fin3 v" "te3 s5 = Fin3 c"
    by (simp_all add: s5_def stage_fields t4)
  have t6: "te1 s6 = Fin3 u" "te2 s6 = Fin3 v" "te3 s6 = Fin3 r3"
    unfolding r3_def using pullback_e3_Fin [OF t5] by (simp_all add: s6_def stage_fields t5)
  have t7: "te1 s7 = Fin3 u" "te2 s7 = Fin3 v" "te3 s7 = Fin3 w" "d s7 = Fin f3"
    using normalize_e3_Fin [OF t6(3) r30]
    by (simp_all add: s7_def stage_fields t6 w_def f3_def)
  have t8: "te1 s8 = Fin3 u" "te2 s8 = Fin3 v" "te3 s8 = Fin3 w" "d s8 = Fin f3"
    by (simp_all add: s8_def stage_fields t7)
  have l1: "LCE1 s8 = LCE1 s + Fin (ln f1)"
    by (simp add: s8_def s7_def s6_def s5_def s4_def s3_def stage_fields t2)
  have l2: "LCE2 s8 = LCE2 s + Fin (ln f2)"
    using f2 by (simp add: s8_def s7_def s6_def s5_def stage_fields t4)
      (simp add: s4_def s3_def s2_def s1_def stage_fields)
  have l3: "LCE3 s8 = LCE3 s + Fin (ln f3)"
    using f3 by (simp add: s8_def stage_fields t7)
      (simp add: s7_def s6_def s5_def s4_def s3_def s2_def s1_def stage_fields)
  have d2: "d (normalize_e2 (pullback_e2 (accumulate_LCE1 (normalize_e1 s)))) = Fin f2"
    using t4(4) by (simp add: s4_def s3_def s2_def s1_def)
  have d1: "d (normalize_e1 s) = Fin f1"
    using t1(2) by (simp add: s1_def)
  show ?thesis
    apply (rule exI [of _ u], rule exI [of _ v], rule exI [of _ w])
    apply (rule exI [of _ f1], rule exI [of _ f2], rule exI [of _ f3])
    unfolding s8
    using t8 uu vv ww uv uw vw f1 f2 f3 d1 d2 l1 l2 l3
    by (simp add: norm3_unit f1_def [symmetric] u_def [symmetric] r2_def [symmetric]
        f2_def [symmetric] v_def [symmetric] r3_def [symmetric] f3_def [symmetric] w_def [symmetric])
qed

theorem accum_pullback_orthonormal_witness:
  "lin_indep3 (3, 0, 0) (1, 2, 0) (1, 1, 1)
   \<and> (\<exists>u v w. te1 (accum_pullback skewed_state) = Fin3 u
        \<and> te2 (accum_pullback skewed_state) = Fin3 v
        \<and> te3 (accum_pullback skewed_state) = Fin3 w
        \<and> norm3 u = 1 \<and> norm3 v = 1 \<and> norm3 w = 1
        \<and> dot3 u v = 0 \<and> dot3 u w = 0 \<and> dot3 v w = 0
        \<and> d (normalize_e1 skewed_state) = Fin (norm3 (3, 0, 0)))"
proof -
  have li: "lin_indep3 (3, 0, 0) (1, 2, 0) (1, 1, 1)"
    by (auto simp add: lin_indep3_def add3_def scale3_def)
  have t: "te1 skewed_state = Fin3 (3, 0, 0)" "te2 skewed_state = Fin3 (1, 2, 0)"
    "te3 skewed_state = Fin3 (1, 1, 1)"
    by (simp_all add: skewed_state_def lce_init_def te1_def te2_def te3_def Fin3_def)
  from accum_pullback_orthonormal [OF t li] li show ?thesis
    by blast
qed

section \<open>The exponent rates\<close>

lemma acc_state_0: "acc_state cfg 0 = accum_start cfg"
  by (simp add: acc_state_def)

lemma acc_state_Suc: "acc_state cfg (Suc j) = accum_pullback (interval cfg (acc_state cfg j))"
  by (simp add: acc_state_def)

lemma accum_loop_acc_state: "accum_loop cfg (accum_start cfg) = acc_state cfg (nIterates cfg)"
  by (simp add: accum_loop_def acc_state_def)

lemma LCE_accum_pullback:
  "LCE1 (accum_pullback s) = LCE1 s + log_np (d (normalize_e1 s))"
  "LCE2 (accum_pullback s) =
     LCE2 s + log_np (d (normalize_e2 (pullback_e2 (accumulate_LCE1 (normalize_e1 s)))))"
  "LCE3 (accum_pullback s) =
     LCE3 s + log_np (d (normalize_e3 (pullback_e3 (accumulate_LCE2 (normalize_e2 (pullback_e2
         (accumulate_LCE1 (normalize_e1 s))))))))"
  by (simp_all add: accum_pullback_def stage_fields)

lemma inner_step_LCE:
  "LCE1 (inner_step cfg s) = LCE1 s" "LCE2 (inner_step cfg s) = LCE2 s"
  "LCE3 (inner_step cfg s) = LCE3 s"
  by (simp_all add: inner_step_def Let_def split: prod.splits)

lemma interval_LCE:
  "LCE1 (interval cfg s) = LCE1 s" "LCE2 (interval cfg s) = LCE2 s"
  "LCE3 (interval cfg s) = LCE3 s"
proof -
  have "LCE1 (foldl (\<lambda>s i. inner_step cfg s) s xs) = LCE1 s
      \<and> LCE2 (foldl (\<lambda>s i. inner_step cfg s) s xs) = LCE2 s
      \<and> LCE3 (foldl (\<lambda>s i. inner_step cfg s) s xs) = LCE3 s" for xs :: "nat list"
    by (induction xs arbitrary: s) (simp_all add: inner_step_LCE)
  then show "LCE1 (interval cfg s) = LCE1 s" "LCE2 (interval cfg s) = LCE2 s"
    "LCE3 (interval cfg s) = LCE3 s"
    by (simp_all add: interval_def)
qed

lemma LCE_acc_state:
  "LCE1 (acc_state cfg n) = (\<Sum>j<n. log_np (factor1 cfg j))"
  "LCE2 (acc_state cfg n) = (\<Sum>j<n. log_np (factor2 cfg j))"
  "LCE3 (acc_state cfg n) = (\<Sum>j<n. log_np (factor3 cfg j))"
proof (induction n)
  case 0
  show "LCE1 (acc_state cfg 0) = (\<Sum>j<0. log_np (factor1 cfg j))"
    "LCE2 (acc_state cfg 0) = (\<Sum>j<0. log_np (factor2 cfg j))"
    "LCE3 (acc_state cfg 0) = (\<Sum>j<0. log_np (factor3 cfg j))"
    by (simp_all add: acc_state_0 accum_start_def zero_fl_def)
next
  case (Suc n)
  show "LCE1 (acc_state cfg (Suc n)) = (\<Sum>j<Suc n. log_np (factor1 cfg j))"
    by (simp add: acc_state_Suc LCE_accum_pullback interval_LCE Suc factor1_def)
  show "LCE2 (acc_state cfg (Suc n)) = (\<Sum>j<Suc n. log_np (factor2 cfg j))"
    by (simp add: acc_state_Suc LCE_accum_pullback interval_LCE Suc factor2_def)
  show "LCE3 (acc_state cfg (Suc n)) = (\<Sum>j<Suc n. log_np (factor3 cfg j))"
    by (simp add: acc_state_Suc LCE_accum_pullback interval_LCE Suc factor3_def)
qed

lemma convert_numpy:
  assumes "0 < nIterates cfg"
  shows "convert cfg s = Inr (s\<lparr>
      LCE1 := LCE1 s / (dt cfg * Fin (real (nItsPerPB cfg)) * Fin (real (nIterates cfg))),
      LCE2 := LCE2 s / (dt cfg * Fin (real (nItsPerPB cfg)) * Fin (real (nIterates cfg))),
      LCE3 := LCE3 s / (dt cfg * Fin (real (nItsPerPB cfg)) * Fin (real (nIterates cfg)))\<rparr>)"
  using assms by (simp add: convert_def lce_kind_def Let_def)

text \<open>
  C4. When the accumulation loop runs at least once, the estimation returns (the
  conversion divides numpy values and cannot raise), and each final exponent is its
  accumulator divided by the elapsed integration time \<open>dt * nItsPerPB * nIterates\<close>, where
  the accumulator is the sum, over the \<open>nIterates\<close> pull-back intervals, of the logarithm of
  the normalization factor of its index in that interval. The equations are between
  floats, so they hold also when a value is not finite.
\<close>

theorem estimate_rates:
  assumes "0 < nIterates cfg"
  shows "\<exists>r. estimate cfg = Inr r
    \<and> LCE1 r = (\<Sum>j<nIterates cfg. log_np (factor1 cfg j))
               / (dt cfg * Fin (real (nItsPerPB cfg)) * Fin (real (nIterates cfg)))
    \<and> LCE2 r = (\<Sum>j<nIterates cfg. log_np (factor2 cfg j))
               / (dt cfg * Fin (real (nItsPerPB cfg)) * Fin (real (nIterates cfg)))
    \<and> LCE3 r = (\<Sum>j<nIterates cfg. log_np (factor3 cfg j))
               / (dt cfg * Fin (real (nItsPerPB cfg)) * Fin (real (nIterates cfg)))"
  by (simp add: estimate_def accum_loop_acc_state convert_numpy [OF assms] LCE_acc_state)

theorem estimate_rates_witness:
  "0 < nIterates source_config \<and> (\<exists>r. estimate source_config = Inr r
    \<and> LCE1 r = (\<Sum>j<1000. log_np (factor1 source_config j)) / (Fin 0.01 * Fin 10 * Fin 1000)
    \<and> LCE2 r = (\<Sum>j<1000. log_np (factor2 source_config j)) / (Fin 0.01 * Fin 10 * Fin 1000)
    \<and> LCE3 r = (\<Sum>j<1000. log_np (factor3 source_config j)) / (Fin 0.01 * Fin 10 * Fin 1000))"
proof -
  have n: "nIterates source_config = 1000" "nItsPerPB source_config = 10" "dt source_config = Fin 0.01"
    by (simp_all add: source_config_def)
  have h: "0 < nIterates source_config" by (simp add: n)
  show ?thesis
    using estimate_rates [OF h] h unfolding n by simp
qed

section \<open>A tangent vector of norm zero\<close>

lemma divide_by_zero_not_finite: "\<not> isfinite (x / Fin 0)"
  by (cases x) (simp_all add: inf_of_sign_def)

lemma normalize_divides:
  "te1 (normalize_e1 s) =
     (e1x s / d (normalize_e1 s), e1y s / d (normalize_e1 s), e1z s / d (normalize_e1 s))"
  "te2 (normalize_e2 s) =
     (e2x s / d (normalize_e2 s), e2y s / d (normalize_e2 s), e2z s / d (normalize_e2 s))"
  "te3 (normalize_e3 s) =
     (e3x s / d (normalize_e3 s), e3y s / d (normalize_e3 s), e3z s / d (normalize_e3 s))"
  by (simp_all add: normalize_e1_def normalize_e2_def normalize_e3_def Let_def
      te1_def te2_def te3_def)

lemma normalize_zero_vector:
  "te1 s = (Fin 0, Fin 0, Fin 0) \<Longrightarrow>
     d (normalize_e1 s) = Fin 0 \<and> te1 (normalize_e1 s) = (NaN, NaN, NaN)"
  "te2 s = (Fin 0, Fin 0, Fin 0) \<Longrightarrow>
     d (normalize_e2 s) = Fin 0 \<and> te2 (normalize_e2 s) = (NaN, NaN, NaN)"
  "te3 s = (Fin 0, Fin 0, Fin 0) \<Longrightarrow>
     d (normalize_e3 s) = Fin 0 \<and> te3 (normalize_e3 s) = (NaN, NaN, NaN)"
  by (simp_all add: normalize_e1_def normalize_e2_def normalize_e3_def Let_def
      te1_def te2_def te3_def inf_of_sign_def)

text \<open>
  C6, as the code has it. The normalization stages (the same in the alignment and in the
  accumulation block) do not test the norm. Whenever the norm \<open>d\<close> a stage computes is
  zero, the stage divides by it all the same: each component of that tangent vector
  becomes its quotient by zero, which is never a finite number (\<open>nan\<close> for a zero
  component, an infinity for any other), the accumulation that follows adds \<open>log(0)\<close>,
  minus infinity, to the accumulator of that index, and the block goes on to its next
  stage. For a vector that is exactly zero the norm is zero and all three components
  become \<open>nan\<close>. Nothing is signalled and nothing stops the run: whenever the accumulation
  loop runs at least once, the estimation returns its three exponents, whatever the
  blocks computed.

  The first part is about the division alone and does not depend on how the norm came to
  be zero: with exact arithmetic only the zero vector has norm zero, while in floating
  point the squares of very small components also underflow to a zero norm, and a
  non-zero component is then divided into an infinity.
\<close>

theorem zero_norm_not_signalled:
  "(d (normalize_e1 s) = Fin 0 \<longrightarrow>
      te1 (normalize_e1 s) = (e1x s / Fin 0, e1y s / Fin 0, e1z s / Fin 0)
    \<and> \<not> isfinite (e1x (normalize_e1 s)) \<and> \<not> isfinite (e1y (normalize_e1 s))
    \<and> \<not> isfinite (e1z (normalize_e1 s))
    \<and> LCE1 (accumulate_LCE1 (normalize_e1 s)) = LCE1 s + NInf)
 \<and> (d (normalize_e2 s) = Fin 0 \<longrightarrow>
      te2 (normalize_e2 s) = (e2x s / Fin 0, e2y s / Fin 0, e2z s / Fin 0)
    \<and> \<not> isfinite (e2x (normalize_e2 s)) \<and> \<not> isfinite (e2y (normalize_e2 s))
    \<and> \<not> isfinite (e2z (normalize_e2 s))
    \<and> LCE2 (accumulate_LCE2 (normalize_e2 s)) = LCE2 s + NInf)
 \<and> (d (normalize_e3 s) = Fin 0 \<longrightarrow>
      te3 (normalize_e3 s) = (e3x s / Fin 0, e3y s / Fin 0, e3z s / Fin 0)
    \<and> \<not> isfinite (e3x (normalize_e3 s)) \<and> \<not> isfinite (e3y (normalize_e3 s))
    \<and> \<not> isfinite (e3z (normalize_e3 s))
    \<and> LCE3 (accumulate_LCE3 (normalize_e3 s)) = LCE3 s + NInf)
 \<and> (te1 s = (Fin 0, Fin 0, Fin 0) \<longrightarrow>
      d (normalize_e1 s) = Fin 0 \<and> te1 (normalize_e1 s) = (NaN, NaN, NaN))
 \<and> (te2 s = (Fin 0, Fin 0, Fin 0) \<longrightarrow>
      d (normalize_e2 s) = Fin 0 \<and> te2 (normalize_e2 s) = (NaN, NaN, NaN))
 \<and> (te3 s = (Fin 0, Fin 0, Fin 0) \<longrightarrow>
      d (normalize_e3 s) = Fin 0 \<and> te3 (normalize_e3 s) = (NaN, NaN, NaN))
 \<and> (0 < nIterates cfg \<longrightarrow> (\<exists>r. estimate cfg = Inr r))"
proof -
  have first: "te1 (normalize_e1 s) = (e1x s / Fin 0, e1y s / Fin 0, e1z s / Fin 0)
      \<and> \<not> isfinite (e1x (normalize_e1 s)) \<and> \<not> isfinite (e1y (normalize_e1 s))
      \<and> \<not> isfinite (e1z (normalize_e1 s))
      \<and> LCE1 (accumulate_LCE1 (normalize_e1 s)) = LCE1 s + NInf"
    if z: "d (normalize_e1 s) = Fin 0"
  proof -
    have q: "te1 (normalize_e1 s) = (e1x s / Fin 0, e1y s / Fin 0, e1z s / Fin 0)"
      using normalize_divides(1) [of s] by (simp only: z)
    then have c: "e1x (normalize_e1 s) = e1x s / Fin 0" "e1y (normalize_e1 s) = e1y s / Fin 0"
      "e1z (normalize_e1 s) = e1z s / Fin 0"
      by (simp_all add: te1_def)
    have l: "LCE1 (accumulate_LCE1 (normalize_e1 s)) = LCE1 s + NInf"
      by (simp add: stage_fields z)
    from q l show ?thesis
      by (simp add: c divide_by_zero_not_finite)
  qed
  have second: "te2 (normalize_e2 s) = (e2x s / Fin 0, e2y s / Fin 0, e2z s / Fin 0)
      \<and> \<not> isfinite (e2x (normalize_e2 s)) \<and> \<not> isfinite (e2y (normalize_e2 s))
      \<and> \<not> isfinite (e2z (normalize_e2 s))
      \<and> LCE2 (accumulate_LCE2 (normalize_e2 s)) = LCE2 s + NInf"
    if z: "d (normalize_e2 s) = Fin 0"
  proof -
    have q: "te2 (normalize_e2 s) = (e2x s / Fin 0, e2y s / Fin 0, e2z s / Fin 0)"
      using normalize_divides(2) [of s] by (simp only: z)
    then have c: "e2x (normalize_e2 s) = e2x s / Fin 0" "e2y (normalize_e2 s) = e2y s / Fin 0"
      "e2z (normalize_e2 s) = e2z s / Fin 0"
      by (simp_all add: te2_def)
    have l: "LCE2 (accumulate_LCE2 (normalize_e2 s)) = LCE2 s + NInf"
      by (simp add: stage_fields z)
    from q l show ?thesis
      by (simp add: c divide_by_zero_not_finite)
  qed
  have third: "te3 (normalize_e3 s) = (e3x s / Fin 0, e3y s / Fin 0, e3z s / Fin 0)
      \<and> \<not> isfinite (e3x (normalize_e3 s)) \<and> \<not> isfinite (e3y (normalize_e3 s))
      \<and> \<not> isfinite (e3z (normalize_e3 s))
      \<and> LCE3 (accumulate_LCE3 (normalize_e3 s)) = LCE3 s + NInf"
    if z: "d (normalize_e3 s) = Fin 0"
  proof -
    have q: "te3 (normalize_e3 s) = (e3x s / Fin 0, e3y s / Fin 0, e3z s / Fin 0)"
      using normalize_divides(3) [of s] by (simp only: z)
    then have c: "e3x (normalize_e3 s) = e3x s / Fin 0" "e3y (normalize_e3 s) = e3y s / Fin 0"
      "e3z (normalize_e3 s) = e3z s / Fin 0"
      by (simp_all add: te3_def)
    have l: "LCE3 (accumulate_LCE3 (normalize_e3 s)) = LCE3 s + NInf"
      by (simp add: stage_fields z)
    from q l show ?thesis
      by (simp add: c divide_by_zero_not_finite)
  qed
  have returns: "\<exists>r. estimate cfg = Inr r" if "0 < nIterates cfg"
    using that by (simp add: estimate_def convert_numpy)
  from first second third normalize_zero_vector [of s] returns show ?thesis
    by blast
qed

text \<open>
  With the first two tangent vectors identical, the second vector is zero after its
  projection on the first is removed. The block returns all the same: its second and
  third vectors are \<open>nan\<close>, the second accumulator is minus infinity and the third \<open>nan\<close>.
\<close>

lemma degenerate_stage2:
  "pullback_e2 (accumulate_LCE1 (normalize_e1 degenerate_state)) =
     lce_init\<lparr>e2x := Fin 0, e2y := Fin 0, d := Fin 1\<rparr>"
  by (simp add: degenerate_state_def lce_init_def normalize_e1_def accumulate_LCE1_def
      pullback_e2_def Let_def)

theorem degenerate_basis_not_signalled:
  "d (normalize_e2 (pullback_e2 (accumulate_LCE1 (normalize_e1 degenerate_state)))) = Fin 0
   \<and> te1 (accum_pullback degenerate_state) = (Fin 1, Fin 0, Fin 0)
   \<and> te2 (accum_pullback degenerate_state) = (NaN, NaN, NaN)
   \<and> te3 (accum_pullback degenerate_state) = (NaN, NaN, NaN)
   \<and> LCE1 (accum_pullback degenerate_state) = Fin 0
   \<and> LCE2 (accum_pullback degenerate_state) = NInf
   \<and> LCE3 (accum_pullback degenerate_state) = NaN"
  by (simp add: accum_pullback_def degenerate_stage2 lce_init_def normalize_e2_def
      accumulate_LCE2_def pullback_e3_def normalize_e3_def accumulate_LCE3_def Let_def
      te1_def te2_def te3_def inf_of_sign_def minus_fl_def)

theorem zero_norm_not_signalled_witness:
  "te2 (lce_init\<lparr>e2x := Fin 0, e2y := Fin 0, d := Fin 1\<rparr>) = (Fin 0, Fin 0, Fin 0)
   \<and> d (normalize_e2 (lce_init\<lparr>e2x := Fin 0, e2y := Fin 0, d := Fin 1\<rparr>)) = Fin 0
   \<and> te2 (normalize_e2 (lce_init\<lparr>e2x := Fin 0, e2y := Fin 0, d := Fin 1\<rparr>)) = (NaN, NaN, NaN)
   \<and> \<not> isfinite (e2x (normalize_e2 (lce_init\<lparr>e2x := Fin 0, e2y := Fin 0, d := Fin 1\<rparr>)))
   \<and> LCE2 (accumulate_LCE2 (normalize_e2 (lce_init\<lparr>e2x := Fin 0, e2y := Fin 0, d := Fin 1\<rparr>))) =
       LCE2 (lce_init\<lparr>e2x := Fin 0, e2y := Fin 0, d := Fin 1\<rparr>) + NInf
   \<and> 0 < nIterates source_config \<and> (\<exists>r. estimate source_config = Inr r)"
proof -
  have v: "te2 (lce_init\<lparr>e2x := Fin 0, e2y := Fin 0, d := Fin 1\<rparr>) = (Fin 0, Fin 0, Fin 0)"
    by (simp add: lce_init_def te2_def)
  have n: "0 < nIterates source_config"
    by (simp add: source_config_def)
  from zero_norm_not_signalled [of "lce_init\<lparr>e2x := Fin 0, e2y := Fin 0, d := Fin 1\<rparr>"
      source_config] v n
  show ?thesis
    by blast
qed

section \<open>The phases of the script\<close>

text \<open>
  When the orbit loop reads \<^verbatim>\<open>x[n]\<close>, the three lists hold \<open>n + 1\<close> points: the read is
  in range and is the last point stored.
\<close>

lemma orbit_index_in_range:
  fixes body :: "fl \<Rightarrow> fl \<Rightarrow> fl \<Rightarrow> fl \<times> fl \<times> fl"
  shows "(case foldl (\<lambda>(x, y, z) n. (case body (x ! n) (y ! n) (z ! n) of
              (xt, yt, zt) \<Rightarrow> (x @ [xt], y @ [yt], z @ [zt])))
            ([x0], [y0], [z0]) [0..<n]
          of (x, y, z) \<Rightarrow> length x = Suc n \<and> length y = Suc n \<and> length z = Suc n)"
  by (induction n) (auto split: prod.splits)

lemma orbit_lengths:
  assumes "orbit cfg start = (x, y, z)"
  shows "length x = Suc (nIterates_orbit cfg) \<and> length y = Suc (nIterates_orbit cfg)
    \<and> length z = Suc (nIterates_orbit cfg)"
proof -
  obtain x0 y0 z0 where s: "start = (x0, y0, z0)" by (cases start) auto
  from orbit_index_in_range [where body = "\<lambda>u v w. RKThreeD (alpha cfg) (gamma cfg) (mu cfg)
      (beta cfg) (delta cfg) (lambd cfg) u v w LorenzXDot LorenzYDot LorenzZDot (dt cfg)"
      and ?x0.0 = x0 and ?y0.0 = y0 and ?z0.0 = z0 and n = "nIterates_orbit cfg"] assms
  show ?thesis
    by (simp add: orbit_def s)
qed

lemma foldl_ignore_index: "foldl (\<lambda>s n. f s) s [0..<n] = (f ^^ n) s"
  by (induction n) simp_all

lemma lce_kind_orbit_indep:
  "lce_kind (cfg\<lparr>nTransients_orbit := m, nIterates_orbit := k\<rparr>) = lce_kind cfg"
  by (simp add: lce_kind_def)

lemma inner_step_orbit_indep:
  "inner_step (cfg\<lparr>nTransients_orbit := m, nIterates_orbit := k\<rparr>) = inner_step cfg"
  by (rule ext) (simp add: inner_step_def)

lemma convert_orbit_indep:
  "convert (cfg\<lparr>nTransients_orbit := m, nIterates_orbit := k\<rparr>) = convert cfg"
  unfolding convert_def lce_kind_orbit_indep by (rule ext) simp

text \<open>
  With the source's parameters and one step of trajectory burn-in, the state the burn-in
  produces is not the state the alignment burn-in starts from.
\<close>

theorem alignment_state_not_burn_in_state:
  "orbit_transient (source_config\<lparr>nTransients_orbit := 1\<rparr>) \<noteq>
     (xState lce_init, yState lce_init, zState lce_init)"
  by (simp add: orbit_transient_def source_config_def lce_init_def RKThreeD_def LorenzXDot_def
      LorenzYDot_def LorenzZDot_def Let_def)

text \<open>
  C5, as the code has it. The trajectory burn-in advances the state alone, from
  \<open>(1, 1, 1)\<close>, by \<open>nTransients\<close> integrator steps. The estimation then starts afresh: the
  state is set to \<open>(1, 1, 1)\<close> again and the tangent vectors to the standard basis, the
  alignment burn-in runs its \<open>nTransients\<close> pull-back intervals from there, the accumulators
  are set to zero, the accumulation runs its \<open>nIterates\<close> intervals from the state the
  alignment left, and the conversion comes last. The state entering the alignment burn-in
  is thus the initial condition, not the state the trajectory burn-in produced, and the
  exponents do not depend on the trajectory burn-in.
\<close>

theorem estimation_phases:
  "orbit_transient cfg =
     ((\<lambda>(xState, yState, zState).
         RKThreeD (alpha cfg) (gamma cfg) (mu cfg) (beta cfg) (delta cfg) (lambd cfg)
           xState yState zState LorenzXDot LorenzYDot LorenzZDot (dt cfg))
       ^^ nTransients_orbit cfg) (Fin 1, Fin 1, Fin 1)
   \<and> (xState lce_init, yState lce_init, zState lce_init) = (Fin 1, Fin 1, Fin 1)
   \<and> te1 lce_init = (Fin 1, Fin 0, Fin 0)
   \<and> te2 lce_init = (Fin 0, Fin 1, Fin 0)
   \<and> te3 lce_init = (Fin 0, Fin 0, Fin 1)
   \<and> align_loop cfg lce_init =
       ((\<lambda>s. align_pullback (interval cfg s)) ^^ nTransients cfg) lce_init
   \<and> accum_start cfg =
       (align_loop cfg lce_init)\<lparr>LCE1 := Fin 0, LCE2 := Fin 0, LCE3 := Fin 0\<rparr>
   \<and> accum_loop cfg (accum_start cfg) =
       ((\<lambda>s. accum_pullback (interval cfg s)) ^^ nIterates cfg) (accum_start cfg)
   \<and> estimate cfg = convert cfg (accum_loop cfg (accum_start cfg))
   \<and> estimate (cfg\<lparr>nTransients_orbit := m, nIterates_orbit := k\<rparr>) = estimate cfg"
proof -
  have burn_in: "orbit_transient cfg =
     ((\<lambda>(xState, yState, zState).
         RKThreeD (alpha cfg) (gamma cfg) (mu cfg) (beta cfg) (delta cfg) (lambd cfg)
           xState yState zState LorenzXDot LorenzYDot LorenzZDot (dt cfg))
       ^^ nTransients_orbit cfg) (Fin 1, Fin 1, Fin 1)"
    using foldl_ignore_index [of "\<lambda>(xState, yState, zState).
         RKThreeD (alpha cfg) (gamma cfg) (mu cfg) (beta cfg) (delta cfg) (lambd cfg)
           xState yState zState LorenzXDot LorenzYDot LorenzZDot (dt cfg)"
        "(Fin 1, Fin 1, Fin 1)" "nTransients_orbit cfg"]
    by (simp add: orbit_transient_def case_prod_unfold)
  have init: "(xState lce_init, yState lce_init, zState lce_init) = (Fin 1, Fin 1, Fin 1)"
    "te1 lce_init = (Fin 1, Fin 0, Fin 0)" "te2 lce_init = (Fin 0, Fin 1, Fin 0)"
    "te3 lce_init = (Fin 0, Fin 0, Fin 1)"
    by (simp_all add: lce_init_def te1_def te2_def te3_def)
  have align: "align_loop cfg lce_init =
       ((\<lambda>s. align_pullback (interval cfg s)) ^^ nTransients cfg) lce_init"
    unfolding align_loop_def by (rule foldl_ignore_index)
  have accum: "accum_loop cfg (accum_start cfg) =
       ((\<lambda>s. accum_pullback (interval cfg s)) ^^ nIterates cfg) (accum_start cfg)"
    unfolding accum_loop_def by (rule foldl_ignore_index)
  have indep: "estimate (cfg\<lparr>nTransients_orbit := m, nIterates_orbit := k\<rparr>) = estimate cfg"
    by (simp add: estimate_def convert_orbit_indep accum_loop_def accum_start_def align_loop_def
        interval_def inner_step_orbit_indep)
  from burn_in init align accum indep show ?thesis
    by (simp only: accum_start_def estimate_def simp_thms)
qed

end
